theory Spec2Isabelle
  imports Main
begin

section \<open>Strings\<close>

text \<open>
  A Go string is a sequence of bytes, modelled as \<^typ>\<open>string\<close>. The character classes of
  the regular expressions of package models are all ASCII, so a byte of a multi-byte rune
  never belongs to one of them.
\<close>

definition is_digit :: "char \<Rightarrow> bool" where
  "is_digit c = (c \<in> set ''0123456789'')"

definition is_alpha :: "char \<Rightarrow> bool" where
  "is_alpha c = (c \<in> set ''abcdefghijklmnopqrstuvwxyzABCDEFGHIJKLMNOPQRSTUVWXYZ'')"

definition local_class :: "char \<Rightarrow> bool" where
  \<comment> \<open>\<^verbatim>\<open>[a-zA-Z0-9._%+-]\<close>\<close>
  "local_class c = (is_alpha c \<or> is_digit c \<or> c \<in> set ''._%+-'')"

definition domain_class :: "char \<Rightarrow> bool" where
  \<comment> \<open>\<^verbatim>\<open>[a-zA-Z0-9.-]\<close>\<close>
  "domain_class c = (is_alpha c \<or> is_digit c \<or> c \<in> set ''.-'')"

subsection \<open>strings.TrimSpace\<close>

text \<open>
  \<^verbatim>\<open>strings.TrimSpace\<close> removes leading and trailing white space as Unicode defines it:
  the six ASCII characters tab, line feed, vertical tab, form feed, carriage return and
  space, and the runes U+0085, U+00A0, U+1680, U+2000 to U+200A, U+2028, U+2029, U+202F,
  U+205F and U+3000, which are two or three bytes in UTF-8.
\<close>

definition ascii_space :: "char \<Rightarrow> bool" where
  "ascii_space c = (c \<in> {CHR 0x09, CHR 0x0A, CHR 0x0B, CHR 0x0C, CHR 0x0D, CHR 0x20})"

definition space2 :: "char \<Rightarrow> char \<Rightarrow> bool" where
  "space2 a b = (a = CHR 0xC2 \<and> b \<in> {CHR 0x85, CHR 0xA0})"

definition space3 :: "char \<Rightarrow> char \<Rightarrow> char \<Rightarrow> bool" where
  "space3 a b c =
     ((a = CHR 0xE1 \<and> b = CHR 0x9A \<and> c = CHR 0x80) \<or>
      (a = CHR 0xE2 \<and> b = CHR 0x80 \<and>
         c \<in> {CHR 0x80, CHR 0x81, CHR 0x82, CHR 0x83, CHR 0x84, CHR 0x85, CHR 0x86,
              CHR 0x87, CHR 0x88, CHR 0x89, CHR 0x8A, CHR 0xA8, CHR 0xA9, CHR 0xAF}) \<or>
      (a = CHR 0xE2 \<and> b = CHR 0x81 \<and> c = CHR 0x9F) \<or>
      (a = CHR 0xE3 \<and> b = CHR 0x80 \<and> c = CHR 0x80))"

definition space_width :: "string \<Rightarrow> nat" where
  \<comment> \<open>the number of bytes of the white-space rune the string starts with, 0 when it starts
      with none\<close>
  "space_width s =
     (case s of
        [] \<Rightarrow> 0
      | a # t \<Rightarrow>
          if ascii_space a then 1
          else (case t of
                  [] \<Rightarrow> 0
                | b # u \<Rightarrow>
                    if space2 a b then 2
                    else (case u of [] \<Rightarrow> 0 | c # _ \<Rightarrow> if space3 a b c then 3 else 0)))"

definition space_width_last :: "string \<Rightarrow> nat" where
  \<comment> \<open>the same for the rune the string ends with\<close>
  "space_width_last s =
     (case rev s of
        [] \<Rightarrow> 0
      | c # t \<Rightarrow>
          if ascii_space c then 1
          else (case t of
                  [] \<Rightarrow> 0
                | b # u \<Rightarrow>
                    if space2 b c then 2
                    else (case u of [] \<Rightarrow> 0 | a # _ \<Rightarrow> if space3 a b c then 3 else 0)))"

function trim_left :: "string \<Rightarrow> string" where
  "trim_left s = (if space_width s = 0 then s else trim_left (drop (space_width s) s))"
  by pat_completeness auto
termination
  by (relation "measure length") (auto simp: space_width_def split: list.splits)

function trim_right :: "string \<Rightarrow> string" where
  "trim_right s =
     (if space_width_last s = 0 then s
      else trim_right (take (length s - space_width_last s) s))"
  by pat_completeness auto
termination
  by (relation "measure length") (auto simp: space_width_last_def split: list.splits)

declare trim_left.simps [simp del]
declare trim_right.simps [simp del]

definition TrimSpace :: "string \<Rightarrow> string" where
  "TrimSpace s = trim_right (trim_left s)"

section \<open>Package types\<close>

text \<open>
  The structs of package types. Of the embedded \<^verbatim>\<open>gorm.Model\<close> the primary key is kept;
  its three time stamps are left out: no code of the repository reads them, and every
  delete of the repository is \<^verbatim>\<open>Unscoped\<close>, so \<^verbatim>\<open>DeletedAt\<close> is never set. The primary key
  of a phone is named \<open>PhoneID\<close>, for \<open>ID\<close> is the one of a contact.
\<close>

record phone =
  PhoneID :: nat
  ContactID :: nat
  Number :: string
  Type :: string

record contact =
  ID :: nat
  FirstName :: string
  LastName :: string
  Email :: string
  PrimaryPhone :: string
  AdditionalPhones :: "phone list"

record create_contact_request =
  ReqFirstName :: string
  ReqLastName :: string
  ReqEmail :: string
  ReqPrimaryPhone :: string
  ReqAdditionalPhones :: "phone list"

record csv_contact =
  CsvFirstName :: string
  CsvLastName :: string
  CsvEmail :: string
  CsvPrimaryPhone :: string

section \<open>Package models\<close>

fun match_tld :: "string \<Rightarrow> bool" where
  \<comment> \<open>\<^verbatim>\<open>[a-zA-Z]{2,}$\<close>\<close>
  "match_tld s = (list_all is_alpha s \<and> 2 \<le> length s)"

fun match_domain :: "bool \<Rightarrow> string \<Rightarrow> bool" where
  \<comment> \<open>\<^verbatim>\<open>[a-zA-Z0-9.-]+\.[a-zA-Z]{2,}$\<close>; the flag says that the class has matched at least
      once, so that the dot may end it\<close>
  "match_domain seen [] = False"
| "match_domain seen (c # s) =
     ((seen \<and> c = CHR ''.'' \<and> match_tld s) \<or> (domain_class c \<and> match_domain True s))"

fun match_local :: "bool \<Rightarrow> string \<Rightarrow> bool" where
  \<comment> \<open>\<^verbatim>\<open>[a-zA-Z0-9._%+-]+@\<close> and then the domain\<close>
  "match_local seen [] = False"
| "match_local seen (c # s) =
     ((seen \<and> c = CHR ''@'' \<and> match_domain False s) \<or> (local_class c \<and> match_local True s))"

definition isValidEmail :: "string \<Rightarrow> bool" where
  "isValidEmail email = match_local False email"

definition isValidPhone :: "string \<Rightarrow> bool" where
  "isValidPhone phone =
     (let cleaned = filter is_digit phone
      in 10 \<le> length cleaned \<and> length cleaned \<le> 15)"

definition formatPhoneNumber :: "string \<Rightarrow> string" where
  "formatPhoneNumber phone = filter is_digit phone"

fun check_phone_set :: "string set \<Rightarrow> phone list \<Rightarrow> string option" where
  \<comment> \<open>the loop of \<^verbatim>\<open>Validate\<close> over the additional phones, with its \<^verbatim>\<open>phoneSet\<close>\<close>
  "check_phone_set phoneSet [] = None"
| "check_phone_set phoneSet (p # ps) =
     (let key = Number p @ ''-'' @ Type p
      in if key \<in> phoneSet then Some ''duplicate phone numbers are not allowed''
         else check_phone_set (insert key phoneSet) ps)"

definition Validate :: "contact \<Rightarrow> string option" where
  \<comment> \<open>\<open>None\<close> is \<^verbatim>\<open>nil\<close>, \<open>Some m\<close> the error \<^verbatim>\<open>errors.New(m)\<close>\<close>
  "Validate c =
     (if TrimSpace (FirstName c) = [] then Some ''first name is required''
      else if TrimSpace (LastName c) = [] then Some ''last name is required''
      else if \<not> isValidEmail (Email c) then Some ''invalid email format''
      else if \<not> isValidPhone (PrimaryPhone c) then Some ''invalid primary phone format''
      else check_phone_set {} (AdditionalPhones c))"

definition FormatPhoneNumbers :: "contact \<Rightarrow> contact" where
  "FormatPhoneNumbers c =
     c\<lparr>PrimaryPhone := formatPhoneNumber (PrimaryPhone c),
       AdditionalPhones :=
         map (\<lambda>p. p\<lparr>Number := formatPhoneNumber (Number p)\<rparr>) (AdditionalPhones c)\<rparr>"

section \<open>The database\<close>

text \<open>
  The two tables that \<^verbatim>\<open>AutoMigrate\<close> creates, with the sequences of their primary keys,
  and a script of the outcomes of the ORM calls to come: \<open>True\<close> for a call that the driver
  fails (a lost connection, a timeout), in the order of the calls; once the script is used
  up, every call is executed. Each call chain of the source that ends in \<^verbatim>\<open>.Error\<close> is one
  call. A call runs in a transaction of its own, so a call that fails leaves the tables as
  they were.
\<close>

datatype err =
    ErrDriver
  | ErrRecordNotFound
  | ErrUnique
  | ErrEmptySlice
  | ErrNew string

record database =
  contacts :: "contact list"
  phones :: "phone list"
  contact_seq :: nat
  phone_seq :: nat
  failing :: "bool list"

definition tick :: "database \<Rightarrow> bool \<times> database" where
  "tick db = (case failing db of [] \<Rightarrow> (False, db) | f # fs \<Rightarrow> (f, db\<lparr>failing := fs\<rparr>))"

definition row_of :: "contact \<Rightarrow> contact" where
  \<comment> \<open>the columns of a contact: the association is no column\<close>
  "row_of c = c\<lparr>AdditionalPhones := []\<rparr>"

definition preload :: "database \<Rightarrow> contact \<Rightarrow> contact" where
  \<comment> \<open>\<^verbatim>\<open>Preload("AdditionalPhones")\<close>\<close>
  "preload db r = r\<lparr>AdditionalPhones := filter (\<lambda>p. ContactID p = ID r) (phones db)\<rparr>"

definition count_contacts :: "(contact \<Rightarrow> bool) \<Rightarrow> database \<Rightarrow> (err + nat) \<times> database" where
  "count_contacts q db =
     (case tick db of
        (True, db1) \<Rightarrow> (Inl ErrDriver, db1)
      | (False, db1) \<Rightarrow> (Inr (length (filter q (contacts db1))), db1))"

definition count_phones :: "(phone \<Rightarrow> bool) \<Rightarrow> database \<Rightarrow> (err + nat) \<times> database" where
  "count_phones q db =
     (case tick db of
        (True, db1) \<Rightarrow> (Inl ErrDriver, db1)
      | (False, db1) \<Rightarrow> (Inr (length (filter q (phones db1))), db1))"

definition first_contact :: "(contact \<Rightarrow> bool) \<Rightarrow> database \<Rightarrow> (err + contact) \<times> database" where
  \<comment> \<open>\<^verbatim>\<open>Preload("AdditionalPhones")...First(&contact)\<close>: the row of the least primary key\<close>
  "first_contact q db =
     (case tick db of
        (True, db1) \<Rightarrow> (Inl ErrDriver, db1)
      | (False, db1) \<Rightarrow>
          (case filter q (contacts db1) of
             [] \<Rightarrow> (Inl ErrRecordNotFound, db1)
           | r # rs \<Rightarrow> (Inr (preload db1 (arg_min_list ID (r # rs))), db1)))"

definition find_contacts :: "database \<Rightarrow> (err + contact list) \<times> database" where
  \<comment> \<open>\<^verbatim>\<open>Preload("AdditionalPhones").Find(&contacts)\<close>\<close>
  "find_contacts db =
     (case tick db of
        (True, db1) \<Rightarrow> (Inl ErrDriver, db1)
      | (False, db1) \<Rightarrow> (Inr (map (preload db1) (contacts db1)), db1))"

text \<open>
  A row that is inserted with the primary key 0 gets the next key of the sequence of its
  table, and the keys of a sequence are taken to be keys that no row of the table has. The
  column \<^verbatim>\<open>email\<close> is declared \<^verbatim>\<open>unique\<close>. gorm answers
  \<^verbatim>\<open>Create\<close> of an empty slice with an error and writes nothing, which is why \<^verbatim>\<open>Create\<close>
  and \<^verbatim>\<open>Update\<close> of the repository insert the additional phones only when there are some.
\<close>

definition number_from :: "nat \<Rightarrow> contact list \<Rightarrow> contact list" where
  "number_from n cs = map (\<lambda>(i, c). c\<lparr>ID := n + i\<rparr>) (enumerate 0 cs)"

definition number_phones_from :: "nat \<Rightarrow> phone list \<Rightarrow> phone list" where
  "number_phones_from n ps = map (\<lambda>(i, p). p\<lparr>PhoneID := n + i\<rparr>) (enumerate 0 ps)"

definition create_contacts :: "contact list \<Rightarrow> database \<Rightarrow> (err + contact list) \<times> database" where
  \<comment> \<open>\<^verbatim>\<open>Create\<close> of a slice of contacts, as the import calls it, with contacts that have
      no phones: one insert of all rows; gorm refuses an empty slice\<close>
  "create_contacts cs db =
     (case tick db of
        (True, db1) \<Rightarrow> (Inl ErrDriver, db1)
      | (False, db1) \<Rightarrow>
          if cs = [] then (Inl ErrEmptySlice, db1)
          else if \<not> distinct (map Email cs) \<or>
                  (\<exists>c \<in> set cs. \<exists>r \<in> set (contacts db1). Email r = Email c)
          then (Inl ErrUnique, db1)
          else (let cs' = number_from (contact_seq db1) cs
                in (Inr cs',
                    db1\<lparr>contacts := contacts db1 @ map row_of cs',
                        contact_seq := contact_seq db1 + length cs\<rparr>)))"

text \<open>
  \<^verbatim>\<open>Create\<close> and \<^verbatim>\<open>Save\<close> of a contact also write its association: gorm sets the foreign
  key of every element of \<^verbatim>\<open>AdditionalPhones\<close> to the key of the contact and, when there is
  an element, inserts them all with \<^verbatim>\<open>ON CONFLICT (id) DO UPDATE SET contact_id\<close>. An
  element whose key is 0 becomes a new row under the next key of the sequence, which the
  element gets. An element with a key of its own is sent once for that key: where a row has
  the key, the row gets the foreign key and changes in nothing else, and where none has, the
  element becomes a row under its key.
\<close>

fun upsert_phones ::
  "nat \<Rightarrow> nat list \<Rightarrow> phone list \<Rightarrow> phone list \<Rightarrow> nat \<Rightarrow> phone list \<times> phone list \<times> nat" where
  \<comment> \<open>foreign key, keys sent so far, elements, rows and sequence of table \<^verbatim>\<open>phones\<close>; the
      result is the elements as gorm leaves them, the rows and the sequence\<close>
  "upsert_phones fk sent [] rows seq = ([], rows, seq)"
| "upsert_phones fk sent (p # ps) rows seq =
     (if PhoneID p = 0
      then (case upsert_phones fk sent ps
                   (rows @ [p\<lparr>ContactID := fk, PhoneID := seq\<rparr>]) (Suc seq) of
              (ps', rows', seq') \<Rightarrow> (p\<lparr>ContactID := fk, PhoneID := seq\<rparr> # ps', rows', seq'))
      else if PhoneID p \<in> set sent
      then (case upsert_phones fk sent ps rows seq of
              (ps', rows', seq') \<Rightarrow> (p\<lparr>ContactID := fk\<rparr> # ps', rows', seq'))
      else (case upsert_phones fk (PhoneID p # sent) ps
                   (if \<exists>r \<in> set rows. PhoneID r = PhoneID p
                    then map (\<lambda>r. if PhoneID r = PhoneID p then r\<lparr>ContactID := fk\<rparr> else r) rows
                    else rows @ [p\<lparr>ContactID := fk\<rparr>])
                   seq of
              (ps', rows', seq') \<Rightarrow> (p\<lparr>ContactID := fk\<rparr> # ps', rows', seq')))"

definition save_association :: "contact \<Rightarrow> database \<Rightarrow> contact \<times> database" where
  \<comment> \<open>the write of \<^verbatim>\<open>AdditionalPhones\<close> that is part of \<^verbatim>\<open>Create\<close> and of \<^verbatim>\<open>Save\<close>\<close>
  "save_association c db =
     (case upsert_phones (ID c) [] (AdditionalPhones c) (phones db) (phone_seq db) of
        (ps, rows, seq) \<Rightarrow> (c\<lparr>AdditionalPhones := ps\<rparr>, db\<lparr>phones := rows, phone_seq := seq\<rparr>))"

definition create_contact :: "contact \<Rightarrow> database \<Rightarrow> (err + contact) \<times> database" where
  \<comment> \<open>\<^verbatim>\<open>Create\<close> of one contact: its row, then its association\<close>
  "create_contact c db =
     (case tick db of
        (True, db1) \<Rightarrow> (Inl ErrDriver, db1)
      | (False, db1) \<Rightarrow>
          if \<exists>r \<in> set (contacts db1). Email r = Email c then (Inl ErrUnique, db1)
          else (let c' = c\<lparr>ID := contact_seq db1\<rparr>
                in case save_association c'
                          (db1\<lparr>contacts := contacts db1 @ [row_of c'],
                              contact_seq := Suc (contact_seq db1)\<rparr>) of
                     (c'', db2) \<Rightarrow> (Inr c'', db2)))"

definition create_phones :: "phone list \<Rightarrow> database \<Rightarrow> (err + phone list) \<times> database" where
  \<comment> \<open>\<^verbatim>\<open>Create\<close> of a slice of phones\<close>
  "create_phones ps db =
     (case tick db of
        (True, db1) \<Rightarrow> (Inl ErrDriver, db1)
      | (False, db1) \<Rightarrow>
          if ps = [] then (Inl ErrEmptySlice, db1)
          else (let ps' = number_phones_from (phone_seq db1) ps
                in (Inr ps',
                    db1\<lparr>phones := phones db1 @ ps',
                        phone_seq := phone_seq db1 + length ps\<rparr>)))"

definition save_contact :: "contact \<Rightarrow> database \<Rightarrow> (err + contact) \<times> database" where
  \<comment> \<open>\<^verbatim>\<open>Save\<close>: \<^verbatim>\<open>Create\<close> when the primary key is 0, else an update of all columns of the
      row of that key, or an insert under that key when there is no such row, and then the
      association\<close>
  "save_contact c db =
     (if ID c = 0 then create_contact c db
      else (case tick db of
              (True, db1) \<Rightarrow> (Inl ErrDriver, db1)
            | (False, db1) \<Rightarrow>
                if \<exists>r \<in> set (contacts db1). Email r = Email c \<and> ID r \<noteq> ID c
                then (Inl ErrUnique, db1)
                else (case save_association c
                             (db1\<lparr>contacts :=
                                   if \<exists>r \<in> set (contacts db1). ID r = ID c
                                   then map (\<lambda>r. if ID r = ID c then row_of c else r)
                                          (contacts db1)
                                   else contacts db1 @ [row_of c]\<rparr>) of
                        (c', db2) \<Rightarrow> (Inr c', db2))))"

definition delete_phones :: "(phone \<Rightarrow> bool) \<Rightarrow> database \<Rightarrow> err option \<times> database" where
  \<comment> \<open>\<^verbatim>\<open>Unscoped().Where(...).Delete(&types.Phone{})\<close>\<close>
  "delete_phones q db =
     (case tick db of
        (True, db1) \<Rightarrow> (Some ErrDriver, db1)
      | (False, db1) \<Rightarrow> (None, db1\<lparr>phones := filter (\<lambda>p. \<not> q p) (phones db1)\<rparr>))"

definition delete_contacts :: "(contact \<Rightarrow> bool) \<Rightarrow> database \<Rightarrow> err option \<times> database" where
  \<comment> \<open>\<^verbatim>\<open>Unscoped().Delete(&types.Contact{}, id)\<close>\<close>
  "delete_contacts q db =
     (case tick db of
        (True, db1) \<Rightarrow> (Some ErrDriver, db1)
      | (False, db1) \<Rightarrow> (None, db1\<lparr>contacts := filter (\<lambda>r. \<not> q r) (contacts db1)\<rparr>))"

section \<open>Package repository\<close>

definition CheckDuplicatePhone :: "string \<Rightarrow> nat \<Rightarrow> database \<Rightarrow> (err + bool) \<times> database" where
  "CheckDuplicatePhone phoneNumber excludeContactID db =
     (case count_contacts
             (\<lambda>r. PrimaryPhone r = phoneNumber \<and>
                  (excludeContactID > 0 \<longrightarrow> ID r \<noteq> excludeContactID)) db of
        (Inl e, db1) \<Rightarrow> (Inl e, db1)
      | (Inr count, db1) \<Rightarrow>
          if count > 0 then (Inr True, db1)
          else (case count_phones
                       (\<lambda>p. Number p = phoneNumber \<and>
                            (excludeContactID > 0 \<longrightarrow> ContactID p \<noteq> excludeContactID)) db1 of
                  (Inl e, db2) \<Rightarrow> (Inl e, db2)
                | (Inr count, db2) \<Rightarrow> (Inr (count > 0), db2)))"

fun check_additional :: "phone list \<Rightarrow> nat \<Rightarrow> database \<Rightarrow> err option \<times> database" where
  \<comment> \<open>the loop of \<^verbatim>\<open>Create\<close> and of \<^verbatim>\<open>Update\<close> over the additional phones\<close>
  "check_additional [] excludeContactID db = (None, db)"
| "check_additional (p # ps) excludeContactID db =
     (case CheckDuplicatePhone (Number p) excludeContactID db of
        (Inl e, db1) \<Rightarrow> (Some e, db1)
      | (Inr exists, db1) \<Rightarrow>
          if exists
          then (Some (ErrNew ''additional phone number already exists in another contact''), db1)
          else check_additional ps excludeContactID db1)"

definition own_phones :: "contact \<Rightarrow> phone list" where
  \<comment> \<open>the loop that sets \<^verbatim>\<open>ContactID\<close> and clears \<^verbatim>\<open>ID\<close> of each additional phone\<close>
  "own_phones c = map (\<lambda>p. p\<lparr>ContactID := ID c, PhoneID := 0\<rparr>) (AdditionalPhones c)"

definition save_phones :: "contact \<Rightarrow> database \<Rightarrow> (err + contact) \<times> database" where
  \<comment> \<open>the end of \<^verbatim>\<open>Create\<close> and of \<^verbatim>\<open>Update\<close>: the insert of the additional phones\<close>
  "save_phones c db =
     (let c1 = c\<lparr>AdditionalPhones := own_phones c\<rparr>
      in if length (AdditionalPhones c1) > 0
         then (case create_phones (AdditionalPhones c1) db of
                 (Inl e, db1) \<Rightarrow> (Inl e, db1)
               | (Inr ps, db1) \<Rightarrow> (Inr (c1\<lparr>AdditionalPhones := ps\<rparr>), db1))
         else (Inr c1, db))"

definition repo_Create :: "contact \<Rightarrow> database \<Rightarrow> (err + contact) \<times> database" where
  \<comment> \<open>the contact is passed by pointer: the result is the contact as \<^verbatim>\<open>Create\<close> leaves it\<close>
  "repo_Create c db =
     (case CheckDuplicatePhone (PrimaryPhone c) 0 db of
        (Inl e, db1) \<Rightarrow> (Inl e, db1)
      | (Inr exists, db1) \<Rightarrow>
          if exists
          then (Inl (ErrNew ''primary phone number already exists in another contact''), db1)
          else (case check_additional (AdditionalPhones c) 0 db1 of
                  (Some e, db2) \<Rightarrow> (Inl e, db2)
                | (None, db2) \<Rightarrow>
                    (case create_contact c db2 of
                       (Inl e, db3) \<Rightarrow> (Inl e, db3)
                     | (Inr c1, db3) \<Rightarrow> save_phones c1 db3)))"

definition repo_FindByID :: "nat \<Rightarrow> database \<Rightarrow> (err + contact) \<times> database" where
  "repo_FindByID i db = first_contact (\<lambda>r. ID r = i) db"

definition repo_Update :: "contact \<Rightarrow> database \<Rightarrow> (err + contact) \<times> database" where
  "repo_Update c db =
     (case CheckDuplicatePhone (PrimaryPhone c) (ID c) db of
        (Inl e, db1) \<Rightarrow> (Inl e, db1)
      | (Inr exists, db1) \<Rightarrow>
          if exists
          then (Inl (ErrNew ''primary phone number already exists in another contact''), db1)
          else (case check_additional (AdditionalPhones c) (ID c) db1 of
                  (Some e, db2) \<Rightarrow> (Inl e, db2)
                | (None, db2) \<Rightarrow>
                    (case save_contact c db2 of
                       (Inl e, db3) \<Rightarrow> (Inl e, db3)
                     | (Inr c1, db3) \<Rightarrow>
                         (case delete_phones (\<lambda>p. ContactID p = ID c1) db3 of
                            (Some e, db4) \<Rightarrow> (Inl e, db4)
                          | (None, db4) \<Rightarrow> save_phones c1 db4))))"

definition repo_Delete :: "nat \<Rightarrow> database \<Rightarrow> err option \<times> database" where
  "repo_Delete i db =
     (case delete_phones (\<lambda>p. ContactID p = i) db of
        (Some e, db1) \<Rightarrow> (Some e, db1)
      | (None, db1) \<Rightarrow> delete_contacts (\<lambda>r. ID r = i) db1)"

definition repo_List :: "database \<Rightarrow> (err + contact list) \<times> database" where
  "repo_List db = find_contacts db"

definition repo_FindByEmail :: "string \<Rightarrow> database \<Rightarrow> (err + contact) \<times> database" where
  "repo_FindByEmail email db = first_contact (\<lambda>r. Email r = email) db"

definition repo_ImportContacts :: "contact list \<Rightarrow> database \<Rightarrow> err option \<times> database" where
  "repo_ImportContacts cs db =
     (case create_contacts cs db of
        (Inl e, db1) \<Rightarrow> (Some e, db1)
      | (Inr cs', db1) \<Rightarrow> (None, db1))"

section \<open>Package handlers\<close>

text \<open>
  What the framework hands to a handler is an input of the model: the path parameter
  \<^verbatim>\<open>id\<close> as a string, the outcome of \<^verbatim>\<open>ShouldBindJSON\<close> (the message of its error, or the
  request it has bound), and for the import the outcome of reading the form file and of
  \<^verbatim>\<open>gocsv.Unmarshal\<close>. A handler returns the response it writes and the database it leaves.
\<close>

datatype body =
    ErrorBody string
  | ContactBody contact
  | ContactsBody "contact list"
  | MessageBody string
  | ImportBody string nat

record response =
  status :: nat
  body :: body

definition JSON :: "nat \<Rightarrow> body \<Rightarrow> response" where
  "JSON code obj = \<lparr>status = code, body = obj\<rparr>"

datatype file_outcome =
    OpenError
  | ReadError
  | ParseError
  | Rows "csv_contact list"

datatype form_file =
    NoFile
  | FormFile string file_outcome

definition ParseUint32 :: "string \<Rightarrow> nat option" where
  \<comment> \<open>\<^verbatim>\<open>strconv.ParseUint(s, 10, 32)\<close>: decimal digits only, at least one, and a value
      of at most \<open>2 ^ 32 - 1\<close>\<close>
  "ParseUint32 s =
     (if s = [] \<or> \<not> list_all is_digit s then None
      else (let n = foldl (\<lambda>a c. 10 * a + (of_char c - 48)) 0 s
            in if n \<le> 4294967295 then Some n else None))"

definition HasSuffix :: "string \<Rightarrow> string \<Rightarrow> bool" where
  "HasSuffix s suffix = (length suffix \<le> length s \<and> drop (length s - length suffix) s = suffix)"

definition NewContact :: "create_contact_request \<Rightarrow> contact" where
  \<comment> \<open>the contact that \<^verbatim>\<open>CreateContact\<close> builds from the request\<close>
  "NewContact req =
     \<lparr>ID = 0, FirstName = ReqFirstName req, LastName = ReqLastName req,
      Email = ReqEmail req, PrimaryPhone = ReqPrimaryPhone req,
      AdditionalPhones = ReqAdditionalPhones req\<rparr>"

definition NewContactCSV :: "csv_contact \<Rightarrow> contact" where
  \<comment> \<open>the contact that \<^verbatim>\<open>ImportContacts\<close> builds from a row\<close>
  "NewContactCSV csvContact =
     \<lparr>ID = 0, FirstName = CsvFirstName csvContact, LastName = CsvLastName csvContact,
      Email = CsvEmail csvContact, PrimaryPhone = CsvPrimaryPhone csvContact,
      AdditionalPhones = []\<rparr>"

definition CreateContact ::
  "string + create_contact_request \<Rightarrow> database \<Rightarrow> response \<times> database" where
  "CreateContact bound db =
     (case bound of
        Inl m \<Rightarrow> (JSON 400 (ErrorBody m), db)
      | Inr req \<Rightarrow>
          (case Validate (NewContact req) of
             Some m \<Rightarrow> (JSON 400 (ErrorBody m), db)
           | None \<Rightarrow>
               (let contact = FormatPhoneNumbers (NewContact req)
                in case repo_FindByEmail (ReqEmail req) db of
                     (Inr existingContact, db1) \<Rightarrow>
                       (JSON 409 (ErrorBody ''Email already exists''), db1)
                   | (Inl e, db1) \<Rightarrow>
                       (case repo_Create contact db1 of
                          (Inl e, db2) \<Rightarrow> (JSON 500 (ErrorBody ''Failed to create contact''), db2)
                        | (Inr contact', db2) \<Rightarrow> (JSON 201 (ContactBody contact'), db2)))))"

definition ListContacts :: "database \<Rightarrow> response \<times> database" where
  "ListContacts db =
     (case repo_List db of
        (Inl e, db1) \<Rightarrow> (JSON 500 (ErrorBody ''Failed to fetch contacts''), db1)
      | (Inr found, db1) \<Rightarrow> (JSON 200 (ContactsBody found), db1))"

definition GetContact :: "string \<Rightarrow> database \<Rightarrow> response \<times> database" where
  "GetContact param db =
     (case ParseUint32 param of
        None \<Rightarrow> (JSON 400 (ErrorBody ''Invalid ID format''), db)
      | Some i \<Rightarrow>
          (case repo_FindByID i db of
             (Inl e, db1) \<Rightarrow> (JSON 404 (ErrorBody ''Contact not found''), db1)
           | (Inr contact, db1) \<Rightarrow> (JSON 200 (ContactBody contact), db1)))"

definition update_fields :: "contact \<Rightarrow> create_contact_request \<Rightarrow> contact" where
  \<comment> \<open>the five assignments of \<^verbatim>\<open>UpdateContact\<close> to the contact it has found\<close>
  "update_fields existingContact req =
     existingContact\<lparr>FirstName := ReqFirstName req, LastName := ReqLastName req,
       Email := ReqEmail req, PrimaryPhone := ReqPrimaryPhone req,
       AdditionalPhones := ReqAdditionalPhones req\<rparr>"

definition UpdateContact ::
  "string \<Rightarrow> string + create_contact_request \<Rightarrow> database \<Rightarrow> response \<times> database" where
  "UpdateContact param bound db =
     (case ParseUint32 param of
        None \<Rightarrow> (JSON 400 (ErrorBody ''Invalid ID format''), db)
      | Some i \<Rightarrow>
          (case bound of
             Inl m \<Rightarrow> (JSON 400 (ErrorBody m), db)
           | Inr req \<Rightarrow>
               (case repo_FindByID i db of
                  (Inl e, db1) \<Rightarrow> (JSON 404 (ErrorBody ''Contact not found''), db1)
                | (Inr found, db1) \<Rightarrow>
                    (case Validate (update_fields found req) of
                       Some m \<Rightarrow> (JSON 400 (ErrorBody m), db1)
                     | None \<Rightarrow>
                         (let existingContact = FormatPhoneNumbers (update_fields found req)
                          in case repo_FindByEmail (ReqEmail req) db1 of
                               (r, db2) \<Rightarrow>
                                 if (case r of
                                       Inl e \<Rightarrow> False
                                     | Inr emailContact \<Rightarrow> ID emailContact \<noteq> ID existingContact)
                                 then (JSON 409 (ErrorBody ''Email already exists''), db2)
                                 else (case repo_Update existingContact db2 of
                                         (Inl e, db3) \<Rightarrow>
                                           (JSON 500 (ErrorBody ''Failed to update contact''), db3)
                                       | (Inr contact', db3) \<Rightarrow>
                                           (JSON 200 (ContactBody contact'), db3)))))))"

definition DeleteContact :: "string \<Rightarrow> database \<Rightarrow> response \<times> database" where
  "DeleteContact param db =
     (case ParseUint32 param of
        None \<Rightarrow> (JSON 400 (ErrorBody ''Invalid ID format''), db)
      | Some i \<Rightarrow>
          (case repo_FindByID i db of
             (Inl e, db1) \<Rightarrow> (JSON 404 (ErrorBody ''Contact not found''), db1)
           | (Inr found, db1) \<Rightarrow>
               (case repo_Delete i db1 of
                  (Some e, db2) \<Rightarrow> (JSON 500 (ErrorBody ''Failed to delete contact''), db2)
                | (None, db2) \<Rightarrow> (JSON 200 (MessageBody ''Contact deleted successfully''), db2))))"

fun import_rows :: "csv_contact list \<Rightarrow> contact list \<Rightarrow> contact list" where
  \<comment> \<open>the loop of \<^verbatim>\<open>ImportContacts\<close> over the rows, with its \<^verbatim>\<open>contactsToImport\<close>\<close>
  "import_rows [] contactsToImport = contactsToImport"
| "import_rows (csvContact # rest) contactsToImport =
     (case Validate (NewContactCSV csvContact) of
        Some m \<Rightarrow> import_rows rest contactsToImport
      | None \<Rightarrow>
          import_rows rest (contactsToImport @ [FormatPhoneNumbers (NewContactCSV csvContact)]))"

definition ImportContacts :: "form_file \<Rightarrow> database \<Rightarrow> response \<times> database" where
  "ImportContacts upload db =
     (case upload of
        NoFile \<Rightarrow> (JSON 400 (ErrorBody ''No file uploaded''), db)
      | FormFile filename outcome \<Rightarrow>
          if \<not> HasSuffix filename ''.csv'' then (JSON 400 (ErrorBody ''File must be a CSV''), db)
          else (case outcome of
                  OpenError \<Rightarrow> (JSON 500 (ErrorBody ''Failed to open file''), db)
                | ReadError \<Rightarrow> (JSON 500 (ErrorBody ''Failed to read file''), db)
                | ParseError \<Rightarrow> (JSON 400 (ErrorBody ''Failed to parse CSV file''), db)
                | Rows csvContacts \<Rightarrow>
                    (let contactsToImport = import_rows csvContacts []
                     in case repo_ImportContacts contactsToImport db of
                          (Some e, db1) \<Rightarrow>
                            (JSON 500 (ErrorBody ''Failed to import contacts''), db1)
                        | (None, db1) \<Rightarrow>
                            (JSON 200 (ImportBody ''Import completed'' (length contactsToImport)),
                             db1))))"

section \<open>Vocabulary of the properties\<close>

definition request_numbers :: "create_contact_request \<Rightarrow> string list" where
  \<comment> \<open>the phone numbers of a request as they are stored: primary first, digits only\<close>
  "request_numbers req =
     formatPhoneNumber (ReqPrimaryPhone req) #
     map (\<lambda>p. formatPhoneNumber (Number p)) (ReqAdditionalPhones req)"

definition other_numbers :: "nat \<Rightarrow> database \<Rightarrow> string list" where
  \<comment> \<open>the phone numbers stored for the contacts other than \<open>exclude\<close>; for all contacts when
      \<open>exclude\<close> is 0\<close>
  "other_numbers exclude db =
     map PrimaryPhone (filter (\<lambda>r. 0 < exclude \<longrightarrow> ID r \<noteq> exclude) (contacts db)) @
     map Number (filter (\<lambda>p. 0 < exclude \<longrightarrow> ContactID p \<noteq> exclude) (phones db))"

definition valid_rows :: "csv_contact list \<Rightarrow> csv_contact list" where
  "valid_rows rows = filter (\<lambda>r. Validate (NewContactCSV r) = None) rows"

definition contact_ok :: "contact \<Rightarrow> bool" where
  "contact_ok c =
     (TrimSpace (FirstName c) \<noteq> [] \<and> TrimSpace (LastName c) \<noteq> [] \<and>
      isValidEmail (Email c) \<and>
      list_all is_digit (PrimaryPhone c) \<and>
      10 \<le> length (PrimaryPhone c) \<and> length (PrimaryPhone c) \<le> 15)"

definition phone_ok :: "phone \<Rightarrow> bool" where
  "phone_ok p = list_all is_digit (Number p)"

definition db_ok :: "database \<Rightarrow> bool" where
  "db_ok db = (list_all contact_ok (contacts db) \<and> list_all phone_ok (phones db))"

text \<open>
  The errors of the persistence layer: a call that the database fails. The other errors of
  the repository tell of the input or of the stored contacts: that the record asked for is
  not stored, that an email or a phone number is stored for another contact, that there is
  no row to insert.
\<close>

fun persistence_error :: "err \<Rightarrow> bool" where
  "persistence_error ErrDriver = True"
| "persistence_error ErrRecordNotFound = False"
| "persistence_error ErrUnique = False"
| "persistence_error ErrEmptySlice = False"
| "persistence_error (ErrNew m) = False"

subsection \<open>Example data\<close>

definition empty_db :: database where
  "empty_db = \<lparr>contacts = [], phones = [], contact_seq = 1, phone_seq = 1, failing = []\<rparr>"

definition ann_db :: database where
  \<comment> \<open>one contact, with one additional phone\<close>
  "ann_db =
     \<lparr>contacts =
        [\<lparr>ID = 1, FirstName = ''Ann'', LastName = ''Lee'', Email = ''ann@x.io'',
          PrimaryPhone = ''5551234567'', AdditionalPhones = []\<rparr>],
      phones = [\<lparr>PhoneID = 1, ContactID = 1, Number = ''5559876543'', Type = ''home''\<rparr>],
      contact_seq = 2, phone_seq = 2, failing = []\<rparr>"

definition bob_request :: create_contact_request where
  "bob_request =
     \<lparr>ReqFirstName = ''Bob'', ReqLastName = ''Ray'', ReqEmail = ''bob@x.io'',
      ReqPrimaryPhone = ''(555) 222-3333'', ReqAdditionalPhones = []\<rparr>"

definition bob_row :: csv_contact where
  "bob_row =
     \<lparr>CsvFirstName = ''Bob'', CsvLastName = ''Ray'', CsvEmail = ''bob@x.io'',
      CsvPrimaryPhone = ''(555) 222-3333''\<rparr>"

definition twin_request :: create_contact_request where
  "twin_request =
     bob_request\<lparr>ReqAdditionalPhones :=
       [\<lparr>PhoneID = 0, ContactID = 0, Number = ''5554445555'', Type = ''home''\<rparr>,
        \<lparr>PhoneID = 0, ContactID = 0, Number = ''5554445555'', Type = ''work''\<rparr>]\<rparr>"

definition updated :: "nat \<Rightarrow> create_contact_request \<Rightarrow> contact" where
  \<comment> \<open>the contact that \<^verbatim>\<open>UpdateContact\<close> hands to \<^verbatim>\<open>Update\<close> for the contact \<open>i\<close>\<close>
  "updated i req = (FormatPhoneNumbers (NewContact req))\<lparr>ID := i\<rparr>"

definition pair_db :: database where
  \<comment> \<open>two contacts, each with one additional phone\<close>
  "pair_db =
     \<lparr>contacts =
        [\<lparr>ID = 1, FirstName = ''Ann'', LastName = ''Lee'', Email = ''ann@x.io'',
          PrimaryPhone = ''5551234567'', AdditionalPhones = []\<rparr>,
         \<lparr>ID = 2, FirstName = ''Cy'', LastName = ''Poe'', Email = ''cy@x.io'',
          PrimaryPhone = ''5550001111'', AdditionalPhones = []\<rparr>],
      phones =
        [\<lparr>PhoneID = 1, ContactID = 1, Number = ''5559876543'', Type = ''home''\<rparr>,
         \<lparr>PhoneID = 2, ContactID = 2, Number = ''5550002222'', Type = ''work''\<rparr>],
      contact_seq = 3, phone_seq = 3, failing = []\<rparr>"

definition ann_request :: create_contact_request where
  \<comment> \<open>Ann's own email and numbers, written with separators, and a new last name\<close>
  "ann_request =
     \<lparr>ReqFirstName = ''Ann'', ReqLastName = ''Lee-Roy'', ReqEmail = ''ann@x.io'',
      ReqPrimaryPhone = ''555-123-4567'',
      ReqAdditionalPhones =
        [\<lparr>PhoneID = 0, ContactID = 0, Number = ''555.987.6543'', Type = ''home''\<rparr>]\<rparr>"

definition ann_row :: csv_contact where
  "ann_row =
     \<lparr>CsvFirstName = ''Ann'', CsvLastName = ''Lee'', CsvEmail = ''ann@x.io'',
      CsvPrimaryPhone = ''555-123-4567''\<rparr>"

section \<open>Validation\<close>

lemma match_local_needs_at: "CHR ''@'' \<notin> set s \<Longrightarrow> \<not> match_local seen s"
  by (induction s arbitrary: seen) auto

lemma Validate_no_at: "CHR ''@'' \<notin> set (Email c) \<Longrightarrow> Validate c \<noteq> None"
  by (simp add: Validate_def isValidEmail_def match_local_needs_at)

lemma Validate_nine_digits:
  "length (filter is_digit (PrimaryPhone c)) = 9 \<Longrightarrow> Validate c \<noteq> None"
  by (simp add: Validate_def isValidPhone_def)

lemma check_phone_set_None_iff:
  "check_phone_set S ps = None \<longleftrightarrow>
     distinct (map (\<lambda>p. Number p @ ''-'' @ Type p) ps) \<and>
     set (map (\<lambda>p. Number p @ ''-'' @ Type p) ps) \<inter> S = {}"
  by (induction ps arbitrary: S) (auto simp: Let_def)

lemma Validate_None_iff:
  "Validate c = None \<longleftrightarrow>
     TrimSpace (FirstName c) \<noteq> [] \<and> TrimSpace (LastName c) \<noteq> [] \<and>
     isValidEmail (Email c) \<and> isValidPhone (PrimaryPhone c) \<and>
     distinct (map (\<lambda>p. Number p @ ''-'' @ Type p) (AdditionalPhones c))"
  by (simp add: Validate_def check_phone_set_None_iff)

lemma Validate_update_fields: "Validate (update_fields found req) = Validate (NewContact req)"
  by (simp add: Validate_def update_fields_def NewContact_def)

lemma CreateContact_invalid:
  "Validate (NewContact req) = Some m \<Longrightarrow>
   CreateContact (Inr req) db = (JSON 400 (ErrorBody m), db)"
  by (simp add: CreateContact_def)

lemma UpdateContact_invalid:
  "ParseUint32 param = Some i \<Longrightarrow> repo_FindByID i db = (Inr found, db1) \<Longrightarrow>
   Validate (NewContact req) = Some m \<Longrightarrow>
   UpdateContact param (Inr req) db = (JSON 400 (ErrorBody m), db1)"
  by (simp add: UpdateContact_def Validate_update_fields)

lemma import_rows_filter:
  "import_rows rows acc =
     acc @ map (\<lambda>r. FormatPhoneNumbers (NewContactCSV r)) (valid_rows rows)"
  by (induction rows arbitrary: acc) (auto simp: valid_rows_def split: option.splits)

lemma import_rows_skip:
  "Validate (NewContactCSV row) \<noteq> None \<Longrightarrow>
   import_rows (before @ row # after) acc = import_rows (before @ after) acc"
  by (simp add: import_rows_filter valid_rows_def)

text \<open>
  C8. Validation rejects a contact whose email has no \<open>@\<close>, and a contact whose primary
  phone has exactly nine digits. A create request with such a contact is answered 400 and
  changes nothing; so is an update request that has reached validation (its \<open>id\<close> parses
  and the contact is found); a row of an imported file with such a contact is skipped: the
  import is the one of the file without the row.
\<close>

theorem validation_rejects_missing_at_and_nine_digits:
  assumes "CHR ''@'' \<notin> set email \<or> length (filter is_digit phone) = 9"
  shows "(Email c = email \<and> PrimaryPhone c = phone \<longrightarrow> Validate c \<noteq> None) \<and>
         (ReqEmail req = email \<and> ReqPrimaryPhone req = phone \<longrightarrow>
            status (fst (CreateContact (Inr req) db)) = 400 \<and>
            snd (CreateContact (Inr req) db) = db \<and>
            (ParseUint32 param = Some i \<and> repo_FindByID i db = (Inr found, db1) \<longrightarrow>
               status (fst (UpdateContact param (Inr req) db)) = 400 \<and>
               snd (UpdateContact param (Inr req) db) = db1)) \<and>
         (CsvEmail row = email \<and> CsvPrimaryPhone row = phone \<longrightarrow>
            ImportContacts (FormFile filename (Rows (before @ row # after))) db =
            ImportContacts (FormFile filename (Rows (before @ after))) db)"
proof -
  have bad: "Validate k \<noteq> None" if "Email k = email" "PrimaryPhone k = phone" for k
    using assms that Validate_no_at [of k] Validate_nine_digits [of k] by auto
  have c: "Email c = email \<and> PrimaryPhone c = phone \<longrightarrow> Validate c \<noteq> None"
    using bad by simp
  have r: "status (fst (CreateContact (Inr req) db)) = 400 \<and>
           snd (CreateContact (Inr req) db) = db \<and>
           (ParseUint32 param = Some i \<and> repo_FindByID i db = (Inr found, db1) \<longrightarrow>
              status (fst (UpdateContact param (Inr req) db)) = 400 \<and>
              snd (UpdateContact param (Inr req) db) = db1)"
    if "ReqEmail req = email" "ReqPrimaryPhone req = phone"
  proof -
    have "Validate (NewContact req) \<noteq> None"
      using that by (intro bad) (simp_all add: NewContact_def)
    then obtain m where m: "Validate (NewContact req) = Some m"
      by auto
    show ?thesis
      by (simp add: CreateContact_invalid [OF m] UpdateContact_invalid [OF _ _ m] JSON_def)
  qed
  have i: "ImportContacts (FormFile filename (Rows (before @ row # after))) db =
           ImportContacts (FormFile filename (Rows (before @ after))) db"
    if "CsvEmail row = email" "CsvPrimaryPhone row = phone"
  proof -
    have "Validate (NewContactCSV row) \<noteq> None"
      using that by (intro bad) (simp_all add: NewContactCSV_def)
    then show ?thesis
      by (simp add: ImportContacts_def import_rows_skip)
  qed
  from c r i show ?thesis by blast
qed

lemma ParseUint32_one: "ParseUint32 ''1'' = Some 1"
  by (simp add: ParseUint32_def is_digit_def)

lemma FindByID_ann:
  "repo_FindByID 1 ann_db = (Inr (preload ann_db (hd (contacts ann_db))), ann_db)"
  by (simp add: repo_FindByID_def first_contact_def tick_def ann_db_def)

theorem validation_rejects_missing_at_and_nine_digits_witness:
  "status (fst (CreateContact (Inr (bob_request\<lparr>ReqEmail := ''bob.x.io''\<rparr>)) ann_db)) = 400 \<and>
   status (fst (UpdateContact ''1'' (Inr (bob_request\<lparr>ReqPrimaryPhone := ''555-222-333''\<rparr>))
                  ann_db)) = 400 \<and>
   ImportContacts (FormFile ''c.csv'' (Rows [bob_row\<lparr>CsvEmail := ''bob.x.io''\<rparr>])) ann_db =
   ImportContacts (FormFile ''c.csv'' (Rows [])) ann_db"
proof -
  have e: "CHR ''@'' \<notin> set ''bob.x.io'' \<or> length (filter is_digit ''(555) 222-3333'') = 9"
    by simp
  have n: "CHR ''@'' \<notin> set ''bob@x.io'' \<or> length (filter is_digit ''555-222-333'') = 9"
    by (simp add: is_digit_def)
  show ?thesis
    using validation_rejects_missing_at_and_nine_digits
            [OF e, of _ "bob_request\<lparr>ReqEmail := ''bob.x.io''\<rparr>" ann_db _ _ _ _
               "bob_row\<lparr>CsvEmail := ''bob.x.io''\<rparr>" "''c.csv''" "[]" "[]"]
          validation_rejects_missing_at_and_nine_digits
            [OF n, of _ "bob_request\<lparr>ReqPrimaryPhone := ''555-222-333''\<rparr>" ann_db "''1''" 1
               "preload ann_db (hd (contacts ann_db))" ann_db]
          ParseUint32_one FindByID_ann
    by (simp add: bob_request_def bob_row_def)
qed

section \<open>Duplicate phones within one contact\<close>

text \<open>
  C9, as it is stated, fails: \<^verbatim>\<open>Validate\<close> compares the keys \<^verbatim>\<open>Number + "-" + Type\<close>, so a
  request with one number under two types passes validation and is created. Each of its
  two phones is stored twice, once by \<^verbatim>\<open>Create\<close> of the contact and once by \<^verbatim>\<open>Create\<close> of
  the phones.
\<close>

theorem same_number_twice_counterexample:
  "Validate (NewContact twin_request) = None \<and>
   status (fst (CreateContact (Inr twin_request) empty_db)) = 201 \<and>
   map Number (phones (snd (CreateContact (Inr twin_request) empty_db))) =
     [''5554445555'', ''5554445555'', ''5554445555'', ''5554445555'']"
  by code_simp

lemma repeated_key:
  assumes "i < j" "j < length ps" "Number (ps ! i) = Number (ps ! j)" "Type (ps ! i) = Type (ps ! j)"
  shows "\<not> distinct (map (\<lambda>p. Number p @ ''-'' @ Type p) ps)"
proof
  let ?ks = "map (\<lambda>p. Number p @ ''-'' @ Type p) ps"
  assume d: "distinct ?ks"
  have "?ks ! i = ?ks ! j"
    using assms by simp
  moreover have "i < length ?ks" "j < length ?ks"
    using assms by simp_all
  ultimately have "i = j"
    using d nth_eq_iff_index_eq by blast
  with assms(1) show False by simp
qed

text \<open>
  C9, amended. A request whose additional phones contain the same number with the same
  type twice fails validation: a create request is answered 400 with the message of
  \<^verbatim>\<open>Validate\<close> and changes nothing, and so is an update request that has reached
  validation.
\<close>

theorem repeated_number_and_type_rejected:
  assumes "i < j" and "j < length (ReqAdditionalPhones req)"
    and "Number (ReqAdditionalPhones req ! i) = Number (ReqAdditionalPhones req ! j)"
    and "Type (ReqAdditionalPhones req ! i) = Type (ReqAdditionalPhones req ! j)"
  shows "\<exists>m. Validate (NewContact req) = Some m \<and>
             CreateContact (Inr req) db = (JSON 400 (ErrorBody m), db) \<and>
             (ParseUint32 param = Some k \<and> repo_FindByID k db = (Inr found, db1) \<longrightarrow>
                UpdateContact param (Inr req) db = (JSON 400 (ErrorBody m), db1))"
proof -
  have "\<not> distinct (map (\<lambda>p. Number p @ ''-'' @ Type p) (AdditionalPhones (NewContact req)))"
    using repeated_key [OF assms] by (simp add: NewContact_def)
  then have "Validate (NewContact req) \<noteq> None"
    by (simp add: Validate_None_iff)
  then obtain m where m: "Validate (NewContact req) = Some m"
    by auto
  show ?thesis
    by (intro exI [of _ m]) (simp add: m CreateContact_invalid UpdateContact_invalid)
qed


theorem repeated_number_and_type_rejected_witness:
  "\<exists>m. CreateContact
             (Inr (bob_request\<lparr>ReqAdditionalPhones :=
                     [\<lparr>PhoneID = 0, ContactID = 0, Number = ''5554445555'', Type = ''home''\<rparr>,
                      \<lparr>PhoneID = 0, ContactID = 0, Number = ''5554445555'', Type = ''home''\<rparr>]\<rparr>))
             ann_db = (JSON 400 (ErrorBody m), ann_db) \<and>
           UpdateContact ''1''
             (Inr (bob_request\<lparr>ReqAdditionalPhones :=
                     [\<lparr>PhoneID = 0, ContactID = 0, Number = ''5554445555'', Type = ''home''\<rparr>,
                      \<lparr>PhoneID = 0, ContactID = 0, Number = ''5554445555'', Type = ''home''\<rparr>]\<rparr>))
             ann_db = (JSON 400 (ErrorBody m), ann_db)"
  using repeated_number_and_type_rejected
          [of 0 1 "bob_request\<lparr>ReqAdditionalPhones :=
                     [\<lparr>PhoneID = 0, ContactID = 0, Number = ''5554445555'', Type = ''home''\<rparr>,
                      \<lparr>PhoneID = 0, ContactID = 0, Number = ''5554445555'', Type = ''home''\<rparr>]\<rparr>"
              ann_db "''1''" 1 "preload ann_db (hd (contacts ann_db))" ann_db]
        ParseUint32_one FindByID_ann
  by auto

section \<open>The repository when no call fails\<close>

lemma tick_quiet [simp]: "failing db = [] \<Longrightarrow> tick db = (False, db)"
  by (simp add: tick_def)

lemma filter_count_pos: "0 < length (filter q xs) \<longleftrightarrow> (\<exists>x \<in> set xs. q x)"
  by (simp add: filter_empty_conv)

lemma CheckDuplicatePhone_quiet:
  "failing db = [] \<Longrightarrow>
   CheckDuplicatePhone n e db = (Inr (n \<in> set (other_numbers e db)), db)"
  by (auto simp: CheckDuplicatePhone_def count_contacts_def count_phones_def other_numbers_def
      filter_count_pos filter_empty_conv)

lemma check_additional_quiet:
  "failing db = [] \<Longrightarrow>
   check_additional ps e db =
     (if \<exists>p \<in> set ps. Number p \<in> set (other_numbers e db)
      then Some (ErrNew ''additional phone number already exists in another contact'')
      else None, db)"
  by (induction ps) (auto simp: CheckDuplicatePhone_quiet)

lemma save_phones_quiet:
  "failing db = [] \<Longrightarrow>
   save_phones c db =
     (Inr (c\<lparr>AdditionalPhones := number_phones_from (phone_seq db) (own_phones c)\<rparr>),
      db\<lparr>phones := phones db @ number_phones_from (phone_seq db) (own_phones c),
         phone_seq := phone_seq db + length (AdditionalPhones c)\<rparr>)"
  by (cases "AdditionalPhones c")
     (auto simp: save_phones_def create_phones_def own_phones_def number_phones_from_def Let_def)

lemma first_contact_quiet:
  "failing db = [] \<Longrightarrow>
   first_contact q db =
     (case filter q (contacts db) of
        [] \<Rightarrow> (Inl ErrRecordNotFound, db)
      | r # rs \<Rightarrow> (Inr (preload db (arg_min_list ID (r # rs))), db))"
  by (simp add: first_contact_def)

lemma arg_min_list_filter:
  assumes "filter q xs = r # rs"
  shows "arg_min_list f (r # rs) \<in> set xs \<and> q (arg_min_list f (r # rs))"
proof -
  have "arg_min_list f (r # rs) \<in> set (r # rs)"
    by (rule arg_min_list_in) simp
  then have "arg_min_list f (r # rs) \<in> set (filter q xs)"
    by (simp add: assms)
  then show ?thesis by simp
qed

subsection \<open>The write of the association\<close>

lemma upsert_phones_elems:
  "upsert_phones fk sent ps rows seq = (ps', rows', seq') \<Longrightarrow>
   map Number ps' = map Number ps \<and> map Type ps' = map Type ps"
  by (induction ps arbitrary: sent rows seq ps' rows' seq')
     (auto split: if_splits prod.splits)

lemma upsert_reparent_filter:
  "filter (\<lambda>r. ContactID r \<noteq> fk \<and> Q (PhoneID r))
     (map (\<lambda>r. if PhoneID r = k then r\<lparr>ContactID := fk\<rparr> else r) rows) =
   filter (\<lambda>r. ContactID r \<noteq> fk \<and> Q (PhoneID r) \<and> PhoneID r \<noteq> k) rows"
  by (induction rows) auto

lemma upsert_phones_frame:
  "upsert_phones fk sent ps rows seq = (ps', rows', seq') \<Longrightarrow>
   filter (\<lambda>r. ContactID r \<noteq> fk) rows' =
   filter (\<lambda>r. ContactID r \<noteq> fk \<and>
               PhoneID r \<notin> PhoneID ` {p \<in> set ps. PhoneID p \<noteq> 0 \<and> PhoneID p \<notin> set sent}) rows"
proof (induction ps arbitrary: sent rows seq ps' rows' seq')
  case Nil
  then show ?case by simp
next
  case (Cons p ps)
  let ?K = "\<lambda>sent ps. PhoneID ` {p \<in> set ps. PhoneID p \<noteq> 0 \<and> PhoneID p \<notin> set sent}"
  show ?case
  proof (cases "PhoneID p = 0")
    case True
    then obtain ps1 where
      "upsert_phones fk sent ps (rows @ [p\<lparr>ContactID := fk, PhoneID := seq\<rparr>]) (Suc seq) =
         (ps1, rows', seq')"
      using Cons.prems by (auto split: prod.splits)
    from Cons.IH [OF this] True show ?thesis
      by (auto intro!: filter_cong)
  next
    case key: False
    show ?thesis
    proof (cases "PhoneID p \<in> set sent")
      case True
      then obtain ps1 where "upsert_phones fk sent ps rows seq = (ps1, rows', seq')"
        using Cons.prems key by (auto split: prod.splits)
      from Cons.IH [OF this] True show ?thesis
        by (auto intro!: filter_cong)
    next
      case False
      let ?rows = "if \<exists>r \<in> set rows. PhoneID r = PhoneID p
                   then map (\<lambda>r. if PhoneID r = PhoneID p then r\<lparr>ContactID := fk\<rparr> else r) rows
                   else rows @ [p\<lparr>ContactID := fk\<rparr>]"
      obtain ps1 where "upsert_phones fk (PhoneID p # sent) ps ?rows seq = (ps1, rows', seq')"
        using Cons.prems key False by (auto split: prod.splits)
      from Cons.IH [OF this]
      have 1: "filter (\<lambda>r. ContactID r \<noteq> fk) rows' =
               filter (\<lambda>r. ContactID r \<noteq> fk \<and> PhoneID r \<notin> ?K (PhoneID p # sent) ps) ?rows" .
      have 2: "filter (\<lambda>r. ContactID r \<noteq> fk \<and> PhoneID r \<notin> ?K (PhoneID p # sent) ps) ?rows =
               filter (\<lambda>r. ContactID r \<noteq> fk \<and> PhoneID r \<notin> ?K (PhoneID p # sent) ps \<and>
                           PhoneID r \<noteq> PhoneID p) rows"
      proof (cases "\<exists>r \<in> set rows. PhoneID r = PhoneID p")
        case True
        then show ?thesis
          using upsert_reparent_filter
            [of fk "\<lambda>k. k \<notin> ?K (PhoneID p # sent) ps" "PhoneID p" rows]
          by simp
      next
        case False
        then show ?thesis
          by (auto intro!: filter_cong)
      qed
      have 3: "(PhoneID r \<notin> ?K (PhoneID p # sent) ps \<and> PhoneID r \<noteq> PhoneID p) \<longleftrightarrow>
               PhoneID r \<notin> ?K sent (p # ps)" for r
        using key False by auto
      show ?thesis
        unfolding 1 2 by (rule filter_cong) (use 3 in auto)
    qed
  qed
qed

lemma save_association_tables [simp]:
  "contacts (snd (save_association c db)) = contacts db"
  "contact_seq (snd (save_association c db)) = contact_seq db"
  "failing (snd (save_association c db)) = failing db"
  by (simp_all add: save_association_def split: prod.splits)

lemma save_association_contact [simp]:
  "ID (fst (save_association c db)) = ID c"
  "FirstName (fst (save_association c db)) = FirstName c"
  "LastName (fst (save_association c db)) = LastName c"
  "Email (fst (save_association c db)) = Email c"
  "PrimaryPhone (fst (save_association c db)) = PrimaryPhone c"
  by (simp_all add: save_association_def split: prod.splits)

lemma save_association_elems:
  "map Number (AdditionalPhones (fst (save_association c db))) = map Number (AdditionalPhones c)"
  "map Type (AdditionalPhones (fst (save_association c db))) = map Type (AdditionalPhones c)"
  by (auto simp: save_association_def split: prod.splits dest: upsert_phones_elems)

lemma save_association_length [simp]:
  "length (AdditionalPhones (fst (save_association c db))) = length (AdditionalPhones c)"
  using save_association_elems(1) [of c db] by (metis length_map)

lemma save_association_frame:
  "filter (\<lambda>r. ContactID r \<noteq> ID c) (phones (snd (save_association c db))) =
   filter (\<lambda>r. ContactID r \<noteq> ID c \<and>
               PhoneID r \<notin> PhoneID ` {p \<in> set (AdditionalPhones c). PhoneID p \<noteq> 0})
     (phones db)"
proof -
  obtain ps rows seq
    where u: "upsert_phones (ID c) [] (AdditionalPhones c) (phones db) (phone_seq db) =
                (ps, rows, seq)"
    by (cases "upsert_phones (ID c) [] (AdditionalPhones c) (phones db) (phone_seq db)")
  from upsert_phones_frame [OF u] show ?thesis
    by (simp add: save_association_def u)
qed

lemma save_association_none [simp]:
  "AdditionalPhones c = [] \<Longrightarrow> save_association c db = (c, db)"
  by (simp add: save_association_def)

subsection \<open>Create\<close>

lemma create_contact_quiet:
  "failing db = [] \<Longrightarrow>
   create_contact c db =
     (if \<exists>r \<in> set (contacts db). Email r = Email c then (Inl ErrUnique, db)
      else (Inr (fst (save_association (c\<lparr>ID := contact_seq db\<rparr>)
                        (db\<lparr>contacts := contacts db @ [row_of (c\<lparr>ID := contact_seq db\<rparr>)],
                            contact_seq := Suc (contact_seq db)\<rparr>))),
            snd (save_association (c\<lparr>ID := contact_seq db\<rparr>)
                   (db\<lparr>contacts := contacts db @ [row_of (c\<lparr>ID := contact_seq db\<rparr>)],
                       contact_seq := Suc (contact_seq db)\<rparr>))))"
  by (simp add: create_contact_def Let_def split: prod.splits)

lemma save_phones_quiet_Inr:
  "failing db = [] \<Longrightarrow> \<exists>c' db'. save_phones c db = (Inr c', db')"
  by (simp add: save_phones_quiet)

lemma repo_Create_quiet:
  "failing db = [] \<Longrightarrow>
   repo_Create c db =
     (if PrimaryPhone c \<in> set (other_numbers 0 db)
      then (Inl (ErrNew ''primary phone number already exists in another contact''), db)
      else if \<exists>p \<in> set (AdditionalPhones c). Number p \<in> set (other_numbers 0 db)
      then (Inl (ErrNew ''additional phone number already exists in another contact''), db)
      else if \<exists>r \<in> set (contacts db). Email r = Email c then (Inl ErrUnique, db)
      else save_phones
             (fst (save_association (c\<lparr>ID := contact_seq db\<rparr>)
                     (db\<lparr>contacts := contacts db @ [row_of (c\<lparr>ID := contact_seq db\<rparr>)],
                         contact_seq := Suc (contact_seq db)\<rparr>)))
             (snd (save_association (c\<lparr>ID := contact_seq db\<rparr>)
                     (db\<lparr>contacts := contacts db @ [row_of (c\<lparr>ID := contact_seq db\<rparr>)],
                         contact_seq := Suc (contact_seq db)\<rparr>))))"
  by (simp add: repo_Create_def CheckDuplicatePhone_quiet check_additional_quiet
      create_contact_quiet)

lemma repo_Create_quiet_Inr:
  assumes "failing db = []" and "PrimaryPhone c \<notin> set (other_numbers 0 db)"
    and "\<forall>p \<in> set (AdditionalPhones c). Number p \<notin> set (other_numbers 0 db)"
    and "\<forall>r \<in> set (contacts db). Email r \<noteq> Email c"
  shows "\<exists>c' db'. repo_Create c db = (Inr c', db')"
  using assms by (simp add: repo_Create_quiet save_phones_quiet_Inr)

lemma repo_FindByEmail_quiet_none:
  "failing db = [] \<Longrightarrow> email \<notin> Email ` set (contacts db) \<Longrightarrow>
   repo_FindByEmail email db = (Inl ErrRecordNotFound, db)"
proof -
  assume q: "failing db = []" and n: "email \<notin> Email ` set (contacts db)"
  have "filter (\<lambda>r. Email r = email) (contacts db) = []"
    using n by (auto simp: filter_empty_conv)
  then show ?thesis
    by (simp add: repo_FindByEmail_def first_contact_quiet q)
qed

lemma repo_FindByEmail_quiet_some:
  assumes "failing db = []" and "email \<in> Email ` set (contacts db)"
  shows "\<exists>r \<in> set (contacts db). Email r = email \<and>
           repo_FindByEmail email db = (Inr (preload db r), db)"
proof -
  obtain x xs where f: "filter (\<lambda>r. Email r = email) (contacts db) = x # xs"
    using assms(2) by (cases "filter (\<lambda>r. Email r = email) (contacts db)")
      (auto simp: filter_empty_conv)
  from arg_min_list_filter [OF f, of ID] show ?thesis
    by (intro bexI [of _ "arg_min_list ID (x # xs)"])
       (simp_all add: repo_FindByEmail_def first_contact_quiet assms(1) f)
qed

lemma repo_FindByID_quiet_none:
  "failing db = [] \<Longrightarrow> i \<notin> ID ` set (contacts db) \<Longrightarrow>
   repo_FindByID i db = (Inl ErrRecordNotFound, db)"
proof -
  assume q: "failing db = []" and n: "i \<notin> ID ` set (contacts db)"
  have "filter (\<lambda>r. ID r = i) (contacts db) = []"
    using n by (auto simp: filter_empty_conv)
  then show ?thesis
    by (simp add: repo_FindByID_def first_contact_quiet q)
qed

lemma repo_FindByID_quiet_some:
  assumes "failing db = []" and "i \<in> ID ` set (contacts db)"
  shows "\<exists>r \<in> set (contacts db). ID r = i \<and>
           repo_FindByID i db = (Inr (preload db r), db)"
proof -
  obtain x xs where f: "filter (\<lambda>r. ID r = i) (contacts db) = x # xs"
    using assms(2) by (cases "filter (\<lambda>r. ID r = i) (contacts db)")
      (auto simp: filter_empty_conv)
  from arg_min_list_filter [OF f, of ID] show ?thesis
    by (intro bexI [of _ "arg_min_list ID (x # xs)"])
       (simp_all add: repo_FindByID_def first_contact_quiet assms(1) f)
qed

lemma request_numbers_stored:
  "set (request_numbers req) \<inter> N = {} \<longleftrightarrow>
     PrimaryPhone (FormatPhoneNumbers (NewContact req)) \<notin> N \<and>
     (\<forall>p \<in> set (AdditionalPhones (FormatPhoneNumbers (NewContact req))). Number p \<notin> N)"
  by (auto simp: request_numbers_def FormatPhoneNumbers_def NewContact_def)

lemma CreateContact_quiet:
  assumes "failing db = []" and "Validate (NewContact req) = None"
  shows "ReqEmail req \<in> Email ` set (contacts db) \<Longrightarrow>
           CreateContact (Inr req) db = (JSON 409 (ErrorBody ''Email already exists''), db)"
    and "ReqEmail req \<notin> Email ` set (contacts db) \<Longrightarrow>
         set (request_numbers req) \<inter> set (other_numbers 0 db) \<noteq> {} \<Longrightarrow>
           CreateContact (Inr req) db = (JSON 500 (ErrorBody ''Failed to create contact''), db)"
    and "ReqEmail req \<notin> Email ` set (contacts db) \<Longrightarrow>
         set (request_numbers req) \<inter> set (other_numbers 0 db) = {} \<Longrightarrow>
           \<exists>c' db'. CreateContact (Inr req) db = (JSON 201 (ContactBody c'), db')"
proof -
  show "CreateContact (Inr req) db = (JSON 409 (ErrorBody ''Email already exists''), db)"
    if t: "ReqEmail req \<in> Email ` set (contacts db)"
    using repo_FindByEmail_quiet_some [OF assms(1) t]
    by (auto simp: CreateContact_def assms(2))
  have e: "\<not> (\<exists>r \<in> set (contacts db). Email r = Email (FormatPhoneNumbers (NewContact req)))"
    if "ReqEmail req \<notin> Email ` set (contacts db)"
    using that by (force simp: FormatPhoneNumbers_def NewContact_def image_iff)
  show "CreateContact (Inr req) db = (JSON 500 (ErrorBody ''Failed to create contact''), db)"
    if f: "ReqEmail req \<notin> Email ` set (contacts db)"
      and n: "set (request_numbers req) \<inter> set (other_numbers 0 db) \<noteq> {}"
    using e [OF f] n
    by (auto simp: CreateContact_def assms repo_FindByEmail_quiet_none [OF assms(1) f]
        repo_Create_quiet request_numbers_stored Let_def)
  show "\<exists>c' db'. CreateContact (Inr req) db = (JSON 201 (ContactBody c'), db')"
    if f: "ReqEmail req \<notin> Email ` set (contacts db)"
      and n: "set (request_numbers req) \<inter> set (other_numbers 0 db) = {}"
  proof -
    obtain c' db' where "repo_Create (FormatPhoneNumbers (NewContact req)) db = (Inr c', db')"
      using repo_Create_quiet_Inr [OF assms(1), of "FormatPhoneNumbers (NewContact req)"]
        e [OF f] n
      by (auto simp: request_numbers_stored)
    then show ?thesis
      by (auto simp: CreateContact_def assms repo_FindByEmail_quiet_none [OF assms(1) f] Let_def)
  qed
qed

subsection \<open>Update\<close>

lemma save_contact_quiet:
  "failing db = [] \<Longrightarrow> 0 < ID c \<Longrightarrow>
   save_contact c db =
     (if \<exists>r \<in> set (contacts db). Email r = Email c \<and> ID r \<noteq> ID c then (Inl ErrUnique, db)
      else (Inr (fst (save_association c
                        (db\<lparr>contacts :=
                              if \<exists>r \<in> set (contacts db). ID r = ID c
                              then map (\<lambda>r. if ID r = ID c then row_of c else r) (contacts db)
                              else contacts db @ [row_of c]\<rparr>))),
            snd (save_association c
                   (db\<lparr>contacts :=
                         if \<exists>r \<in> set (contacts db). ID r = ID c
                         then map (\<lambda>r. if ID r = ID c then row_of c else r) (contacts db)
                         else contacts db @ [row_of c]\<rparr>))))"
  by (simp add: save_contact_def split: prod.splits)

lemma delete_phones_quiet:
  "failing db = [] \<Longrightarrow>
   delete_phones q db = (None, db\<lparr>phones := filter (\<lambda>p. \<not> q p) (phones db)\<rparr>)"
  by (simp add: delete_phones_def)

lemma delete_contacts_quiet:
  "failing db = [] \<Longrightarrow>
   delete_contacts q db = (None, db\<lparr>contacts := filter (\<lambda>r. \<not> q r) (contacts db)\<rparr>)"
  by (simp add: delete_contacts_def)

lemma repo_Update_quiet:
  assumes "failing db = []" and "0 < ID c"
  shows "repo_Update c db =
     (if PrimaryPhone c \<in> set (other_numbers (ID c) db)
      then (Inl (ErrNew ''primary phone number already exists in another contact''), db)
      else if \<exists>p \<in> set (AdditionalPhones c). Number p \<in> set (other_numbers (ID c) db)
      then (Inl (ErrNew ''additional phone number already exists in another contact''), db)
      else if \<exists>r \<in> set (contacts db). Email r = Email c \<and> ID r \<noteq> ID c
      then (Inl ErrUnique, db)
      else (let a = save_association c
                      (db\<lparr>contacts :=
                            if \<exists>r \<in> set (contacts db). ID r = ID c
                            then map (\<lambda>r. if ID r = ID c then row_of c else r) (contacts db)
                            else contacts db @ [row_of c]\<rparr>)
            in save_phones (fst a)
                 ((snd a)\<lparr>phones := filter (\<lambda>p. ContactID p \<noteq> ID c) (phones (snd a))\<rparr>)))"
proof -
  let ?a = "save_association c
              (db\<lparr>contacts :=
                    if \<exists>r \<in> set (contacts db). ID r = ID c
                    then map (\<lambda>r. if ID r = ID c then row_of c else r) (contacts db)
                    else contacts db @ [row_of c]\<rparr>)"
  have q: "failing (snd ?a) = []"
    by (simp add: assms(1))
  show ?thesis
    by (auto simp: repo_Update_def CheckDuplicatePhone_quiet check_additional_quiet assms
        save_contact_quiet delete_phones_quiet [OF q] Let_def)
qed

lemma number_phones_from_map:
  "(\<And>p k. f (p\<lparr>PhoneID := k\<rparr>) = f p) \<Longrightarrow> map f (number_phones_from n ps) = map f ps"
  by (auto simp: number_phones_from_def list_eq_iff_nth_eq nth_enumerate_eq)

lemma number_phones_from_set:
  "(\<And>p k. f (p\<lparr>PhoneID := k\<rparr>) = f p) \<Longrightarrow> f ` set (number_phones_from n ps) = f ` set ps"
  using number_phones_from_map [of f n ps] by (metis set_map)

lemma own_phones_contact:
  "p \<in> set (number_phones_from n (own_phones c)) \<Longrightarrow> ContactID p = ID c"
proof -
  assume "p \<in> set (number_phones_from n (own_phones c))"
  then have "ContactID p \<in> ContactID ` set (own_phones c)"
    using number_phones_from_set [of ContactID n "own_phones c"] by auto
  then show ?thesis
    by (auto simp: own_phones_def)
qed

lemma pairs_zip: "map (\<lambda>p. (f p, g p)) xs = zip (map f xs) (map g xs)"
  by (induction xs) auto

lemma own_phones_pairs:
  "map (\<lambda>p. (Number p, Type p)) (number_phones_from n (own_phones c)) =
   map (\<lambda>p. (Number p, Type p)) (AdditionalPhones c)"
  by (simp add: number_phones_from_map own_phones_def comp_def)

lemma repo_Update_quiet_ok:
  assumes "failing db = []" and "0 < ID c"
    and "PrimaryPhone c \<notin> set (other_numbers (ID c) db)"
    and "\<forall>p \<in> set (AdditionalPhones c). Number p \<notin> set (other_numbers (ID c) db)"
    and "\<forall>r \<in> set (contacts db). Email r = Email c \<longrightarrow> ID r = ID c"
    and "ID c \<in> ID ` set (contacts db)"
  shows "\<exists>c'. fst (repo_Update c db) = Inr c'"
    and "contacts (snd (repo_Update c db)) =
           map (\<lambda>r. if ID r = ID c then row_of c else r) (contacts db)"
    and "map (\<lambda>p. (Number p, Type p))
           (filter (\<lambda>p. ContactID p = ID c) (phones (snd (repo_Update c db)))) =
         map (\<lambda>p. (Number p, Type p)) (AdditionalPhones c)"
    and "filter (\<lambda>p. ContactID p \<noteq> ID c) (phones (snd (repo_Update c db))) =
         filter (\<lambda>p. ContactID p \<noteq> ID c \<and>
                     PhoneID p \<notin> PhoneID ` {q \<in> set (AdditionalPhones c). PhoneID q \<noteq> 0})
           (phones db)"
proof -
  define a where
    "a = save_association c
           (db\<lparr>contacts := map (\<lambda>r. if ID r = ID c then row_of c else r) (contacts db)\<rparr>)"
  define new where "new = number_phones_from (phone_seq (snd a)) (own_phones (fst a))"
  have x: "\<exists>r \<in> set (contacts db). ID r = ID c"
    using assms(6) by auto
  have y: "\<not> (\<exists>r \<in> set (contacts db). Email r = Email c \<and> ID r \<noteq> ID c)"
    using assms(5) by auto
  have q: "failing ((snd a)\<lparr>phones := filter (\<lambda>p. ContactID p \<noteq> ID c) (phones (snd a))\<rparr>) = []"
    by (simp add: assms(1) a_def)
  have "repo_Update c db =
          save_phones (fst a)
            ((snd a)\<lparr>phones := filter (\<lambda>p. ContactID p \<noteq> ID c) (phones (snd a))\<rparr>)"
    using x y assms(3,4) by (auto simp: repo_Update_quiet [OF assms(1,2)] Let_def a_def)
  then have u: "repo_Update c db =
          (Inr ((fst a)\<lparr>AdditionalPhones := new\<rparr>),
           (snd a)\<lparr>phones := filter (\<lambda>p. ContactID p \<noteq> ID c) (phones (snd a)) @ new,
                   phone_seq := phone_seq (snd a) + length (AdditionalPhones (fst a))\<rparr>)"
    by (simp add: save_phones_quiet [OF q] new_def)
  have i: "ID (fst a) = ID c"
    by (simp add: a_def)
  have new_i: "filter (\<lambda>p. ContactID p = ID c) new = new"
    and new_other: "filter (\<lambda>p. ContactID p \<noteq> ID c) new = []"
    using own_phones_contact [of _ "phone_seq (snd a)" "fst a"]
    by (auto simp: filter_id_conv filter_empty_conv new_def i)
  have "map (\<lambda>p. (Number p, Type p)) new = map (\<lambda>p. (Number p, Type p)) (AdditionalPhones (fst a))"
    unfolding new_def by (rule own_phones_pairs)
  also have "\<dots> = map (\<lambda>p. (Number p, Type p)) (AdditionalPhones c)"
    by (simp add: pairs_zip save_association_elems a_def)
  finally have pairs:
    "map (\<lambda>p. (Number p, Type p)) new = map (\<lambda>p. (Number p, Type p)) (AdditionalPhones c)" .
  have frame: "filter (\<lambda>p. ContactID p \<noteq> ID c) (phones (snd a)) =
               filter (\<lambda>p. ContactID p \<noteq> ID c \<and>
                           PhoneID p \<notin> PhoneID ` {q \<in> set (AdditionalPhones c). PhoneID q \<noteq> 0})
                 (phones db)"
    unfolding a_def
    using save_association_frame
      [of c "db\<lparr>contacts := map (\<lambda>r. if ID r = ID c then row_of c else r) (contacts db)\<rparr>"]
    by simp
  have cs: "contacts (snd a) = map (\<lambda>r. if ID r = ID c then row_of c else r) (contacts db)"
    by (simp add: a_def)
  have none: "filter (\<lambda>p. ContactID p = ID c) (filter (\<lambda>p. ContactID p \<noteq> ID c) (phones (snd a))) = []"
    by (simp add: filter_empty_conv)
  have same: "filter (\<lambda>p. ContactID p \<noteq> ID c) (filter (\<lambda>p. ContactID p \<noteq> ID c) (phones (snd a))) =
              filter (\<lambda>p. ContactID p \<noteq> ID c) (phones (snd a))"
    by simp
  have ph: "phones (snd (repo_Update c db)) =
              filter (\<lambda>p. ContactID p \<noteq> ID c) (phones (snd a)) @ new"
    by (simp add: u)
  show "\<exists>c'. fst (repo_Update c db) = Inr c'"
    by (simp add: u)
  show "contacts (snd (repo_Update c db)) =
          map (\<lambda>r. if ID r = ID c then row_of c else r) (contacts db)"
    by (simp add: u cs)
  show "map (\<lambda>p. (Number p, Type p))
                   (filter (\<lambda>p. ContactID p = ID c) (phones (snd (repo_Update c db)))) =
                 map (\<lambda>p. (Number p, Type p)) (AdditionalPhones c)"
    by (simp only: ph filter_append none new_i pairs append_Nil)
  show "filter (\<lambda>p. ContactID p \<noteq> ID c) (phones (snd (repo_Update c db))) =
                 filter (\<lambda>p. ContactID p \<noteq> ID c \<and>
                             PhoneID p \<notin> PhoneID ` {q \<in> set (AdditionalPhones c). PhoneID q \<noteq> 0})
                   (phones db)"
    by (simp only: ph filter_append same new_other append_Nil2) (rule frame)
qed

lemma updated_found:
  "ID r = i \<Longrightarrow> FormatPhoneNumbers (update_fields (preload db r) req) = updated i req"
  by (simp add: updated_def FormatPhoneNumbers_def update_fields_def preload_def NewContact_def)

lemma updated_numbers:
  "set (request_numbers req) \<inter> N = {} \<longleftrightarrow>
     PrimaryPhone (updated i req) \<notin> N \<and>
     (\<forall>p \<in> set (AdditionalPhones (updated i req)). Number p \<notin> N)"
  by (auto simp: request_numbers_def updated_def FormatPhoneNumbers_def NewContact_def)

lemma UpdateContact_found:
  assumes "failing db = []" and "ParseUint32 param = Some i"
    and "i \<in> ID ` set (contacts db)" and "Validate (NewContact req) = None"
  shows "UpdateContact param (Inr req) db =
     (case repo_FindByEmail (ReqEmail req) db of
        (r, db2) \<Rightarrow>
          if (case r of Inl e \<Rightarrow> False | Inr emailContact \<Rightarrow> ID emailContact \<noteq> i)
          then (JSON 409 (ErrorBody ''Email already exists''), db2)
          else (case repo_Update (updated i req) db2 of
                  (Inl e, db3) \<Rightarrow> (JSON 500 (ErrorBody ''Failed to update contact''), db3)
                | (Inr contact', db3) \<Rightarrow> (JSON 200 (ContactBody contact'), db3)))"
proof -
  obtain r where r: "ID r = i" "repo_FindByID i db = (Inr (preload db r), db)"
    using repo_FindByID_quiet_some [OF assms(1,3)] by blast
  have "ID (updated i req) = i"
    by (simp add: updated_def)
  then show ?thesis
    by (simp add: UpdateContact_def assms r Validate_update_fields updated_found Let_def
        split: prod.splits sum.splits)
qed

section \<open>Update when no call fails\<close>

lemma UpdateContact_quiet:
  assumes "failing db = []" and "ParseUint32 param = Some i" and "0 < i"
    and "i \<in> ID ` set (contacts db)" and "Validate (NewContact req) = None"
    and "\<forall>r \<in> set (contacts db). Email r = ReqEmail req \<longrightarrow> ID r = i"
  shows "set (request_numbers req) \<inter> set (other_numbers i db) \<noteq> {} \<Longrightarrow>
           UpdateContact param (Inr req) db =
             (JSON 500 (ErrorBody ''Failed to update contact''), db)"
    and "set (request_numbers req) \<inter> set (other_numbers i db) = {} \<Longrightarrow>
           status (fst (UpdateContact param (Inr req) db)) = 200 \<and>
           contacts (snd (UpdateContact param (Inr req) db)) =
             map (\<lambda>r. if ID r = i then row_of (updated i req) else r) (contacts db) \<and>
           map (\<lambda>p. (Number p, Type p))
             (filter (\<lambda>p. ContactID p = i) (phones (snd (UpdateContact param (Inr req) db)))) =
             map (\<lambda>p. (formatPhoneNumber (Number p), Type p)) (ReqAdditionalPhones req) \<and>
           filter (\<lambda>p. ContactID p \<noteq> i) (phones (snd (UpdateContact param (Inr req) db))) =
             filter (\<lambda>p. ContactID p \<noteq> i \<and>
                         PhoneID p \<notin> PhoneID ` {q \<in> set (ReqAdditionalPhones req). PhoneID q \<noteq> 0})
               (phones db)"
proof -
  have u: "ID (updated i req) = i" "Email (updated i req) = ReqEmail req"
    "length (AdditionalPhones (updated i req)) = length (ReqAdditionalPhones req)"
    by (simp_all add: updated_def FormatPhoneNumbers_def NewContact_def)
  have e: "\<not> (case fst (repo_FindByEmail (ReqEmail req) db) of
                Inl e \<Rightarrow> False | Inr emailContact \<Rightarrow> ID emailContact \<noteq> i) \<and>
           snd (repo_FindByEmail (ReqEmail req) db) = db"
  proof (cases "ReqEmail req \<in> Email ` set (contacts db)")
    case True
    from repo_FindByEmail_quiet_some [OF assms(1) True] assms(6) show ?thesis
      by (auto simp: preload_def)
  next
    case False
    from repo_FindByEmail_quiet_none [OF assms(1) False] show ?thesis
      by simp
  qed
  have x: "\<exists>r \<in> set (contacts db). ID r = i"
    using assms(4) by auto
  have y: "\<not> (\<exists>r \<in> set (contacts db). Email r = ReqEmail req \<and> ID r \<noteq> i)"
    using assms(6) by auto
  have "UpdateContact param (Inr req) db =
          (case repo_Update (updated i req) db of
             (Inl e, db3) \<Rightarrow> (JSON 500 (ErrorBody ''Failed to update contact''), db3)
           | (Inr contact', db3) \<Rightarrow> (JSON 200 (ContactBody contact'), db3))"
  proof -
    obtain r where f: "repo_FindByEmail (ReqEmail req) db = (r, db)"
      and n: "\<not> (case r of Inl e \<Rightarrow> False | Inr emailContact \<Rightarrow> ID emailContact \<noteq> i)"
      using e by (cases "repo_FindByEmail (ReqEmail req) db") auto
    show ?thesis
      using n by (simp add: UpdateContact_found [OF assms(1,2,4,5)] f)
  qed
  note h = this
  show "UpdateContact param (Inr req) db =
          (JSON 500 (ErrorBody ''Failed to update contact''), db)"
    if "set (request_numbers req) \<inter> set (other_numbers i db) \<noteq> {}"
    using that x y
    by (auto simp: h repo_Update_quiet [OF assms(1)] u assms(3) updated_numbers [of req _ i])
  have k: "PhoneID ` {q \<in> set (AdditionalPhones (updated i req)). PhoneID q \<noteq> 0} =
           PhoneID ` {q \<in> set (ReqAdditionalPhones req). PhoneID q \<noteq> 0}"
    by (force simp: updated_def FormatPhoneNumbers_def NewContact_def image_iff)
  have m: "map (\<lambda>p. (Number p, Type p)) (AdditionalPhones (updated i req)) =
           map (\<lambda>p. (formatPhoneNumber (Number p), Type p)) (ReqAdditionalPhones req)"
    by (simp add: updated_def FormatPhoneNumbers_def NewContact_def comp_def)
  show "status (fst (UpdateContact param (Inr req) db)) = 200 \<and>
        contacts (snd (UpdateContact param (Inr req) db)) =
          map (\<lambda>r. if ID r = i then row_of (updated i req) else r) (contacts db) \<and>
        map (\<lambda>p. (Number p, Type p))
          (filter (\<lambda>p. ContactID p = i) (phones (snd (UpdateContact param (Inr req) db)))) =
          map (\<lambda>p. (formatPhoneNumber (Number p), Type p)) (ReqAdditionalPhones req) \<and>
        filter (\<lambda>p. ContactID p \<noteq> i) (phones (snd (UpdateContact param (Inr req) db))) =
          filter (\<lambda>p. ContactID p \<noteq> i \<and>
                      PhoneID p \<notin> PhoneID ` {q \<in> set (ReqAdditionalPhones req). PhoneID q \<noteq> 0})
            (phones db)"
    if n: "set (request_numbers req) \<inter> set (other_numbers i db) = {}"
  proof -
    have "PrimaryPhone (updated i req) \<notin> set (other_numbers i db)"
      and "\<forall>p \<in> set (AdditionalPhones (updated i req)).
             Number p \<notin> set (other_numbers i db)"
      using n updated_numbers [of req "set (other_numbers i db)" i] by simp_all
    note ok = repo_Update_quiet_ok [of db "updated i req", unfolded u, OF assms(1,3) this assms(6,4)]
    obtain c' db' where r: "repo_Update (updated i req) db = (Inr c', db')"
      using ok(1) by (cases "repo_Update (updated i req) db") auto
    then have "UpdateContact param (Inr req) db = (JSON 200 (ContactBody c'), db')"
      by (simp add: h)
    then have "status (fst (UpdateContact param (Inr req) db)) = 200"
      and "snd (UpdateContact param (Inr req) db) = snd (repo_Update (updated i req) db)"
      by (simp_all add: JSON_def r)
    then show ?thesis
      using ok(2,3,4) by (simp only: k m)
  qed
qed
section \<open>Create\<close>


lemma bob_valid: "Validate (NewContact bob_request) = None"
  by code_simp

lemma bob_fresh:
  "failing ann_db = [] \<and> ReqEmail bob_request \<notin> Email ` set (contacts ann_db) \<and>
   set (request_numbers bob_request) \<inter> set (other_numbers 0 ann_db) = {}"
  by (simp add: ann_db_def bob_request_def request_numbers_def other_numbers_def
      formatPhoneNumber_def is_digit_def)


text \<open>
  C1. What the handlers do with a phone number of another contact: a valid request whose
  email is free and one of whose numbers is stored for another contact is answered 500,
  with the message of a failed write, by create and by update alike; the message that the
  repository has built for the duplicate is dropped.
\<close>

theorem duplicate_phone_is_answered_500:
  assumes "failing db = []" and "Validate (NewContact req) = None"
  shows "(ReqEmail req \<notin> Email ` set (contacts db) \<and>
          set (request_numbers req) \<inter> set (other_numbers 0 db) \<noteq> {} \<longrightarrow>
            CreateContact (Inr req) db =
              (JSON 500 (ErrorBody ''Failed to create contact''), db)) \<and>
         (ParseUint32 param = Some i \<and> 0 < i \<and> i \<in> ID ` set (contacts db) \<and>
          (\<forall>r \<in> set (contacts db). Email r = ReqEmail req \<longrightarrow> ID r = i) \<and>
          set (request_numbers req) \<inter> set (other_numbers i db) \<noteq> {} \<longrightarrow>
            UpdateContact param (Inr req) db =
              (JSON 500 (ErrorBody ''Failed to update contact''), db))"
  using CreateContact_quiet(2) [OF assms]
    UpdateContact_quiet(1) [OF assms(1) _ _ _ assms(2), of param i]
  by blast


lemma ParseUint32_two: "ParseUint32 ''2'' = Some 2"
  by (simp add: ParseUint32_def is_digit_def)

theorem duplicate_phone_is_answered_500_witness:
  "CreateContact (Inr (bob_request\<lparr>ReqPrimaryPhone := ''555-123-4567''\<rparr>)) ann_db =
     (JSON 500 (ErrorBody ''Failed to create contact''), ann_db) \<and>
   UpdateContact ''2''
     (Inr (bob_request\<lparr>ReqAdditionalPhones :=
             [\<lparr>PhoneID = 0, ContactID = 0, Number = ''555 987 6543'', Type = ''work''\<rparr>]\<rparr>))
     pair_db =
     (JSON 500 (ErrorBody ''Failed to update contact''), pair_db)"
proof -
  have c: "failing ann_db = []"
          "Validate (NewContact (bob_request\<lparr>ReqPrimaryPhone := ''555-123-4567''\<rparr>)) = None"
    by (simp add: ann_db_def, code_simp)
  have c': "ReqEmail (bob_request\<lparr>ReqPrimaryPhone := ''555-123-4567''\<rparr>)
              \<notin> Email ` set (contacts ann_db) \<and>
            set (request_numbers (bob_request\<lparr>ReqPrimaryPhone := ''555-123-4567''\<rparr>)) \<inter>
              set (other_numbers 0 ann_db) \<noteq> {}"
    by (simp add: ann_db_def bob_request_def request_numbers_def other_numbers_def
        formatPhoneNumber_def is_digit_def)
  have u: "failing pair_db = []"
          "Validate (NewContact (bob_request\<lparr>ReqAdditionalPhones :=
             [\<lparr>PhoneID = 0, ContactID = 0, Number = ''555 987 6543'', Type = ''work''\<rparr>]\<rparr>)) = None"
    by (simp add: pair_db_def, code_simp)
  have u': "(2::nat) \<in> ID ` set (contacts pair_db) \<and>
            (\<forall>r \<in> set (contacts pair_db).
                Email r = ReqEmail (bob_request\<lparr>ReqAdditionalPhones :=
                  [\<lparr>PhoneID = 0, ContactID = 0, Number = ''555 987 6543'', Type = ''work''\<rparr>]\<rparr>)
                \<longrightarrow> ID r = 2) \<and>
            set (request_numbers (bob_request\<lparr>ReqAdditionalPhones :=
                  [\<lparr>PhoneID = 0, ContactID = 0, Number = ''555 987 6543'', Type = ''work''\<rparr>]\<rparr>)) \<inter>
              set (other_numbers 2 pair_db) \<noteq> {}"
    by (simp add: pair_db_def bob_request_def request_numbers_def other_numbers_def
        formatPhoneNumber_def is_digit_def)
  show ?thesis
    using duplicate_phone_is_answered_500 [OF c] duplicate_phone_is_answered_500 [OF u, of "''2''" 2]
          c' u' ParseUint32_two
    by simp
qed

section \<open>Get and delete\<close>

text \<open>
  C7. \<^verbatim>\<open>GET /api/contacts/:id\<close> with an \<open>id\<close> that parses, on a database that executes
  the query: the answer is 404 exactly when no contact has the \<open>id\<close>, and otherwise 200
  with a stored contact of that \<open>id\<close> and, nested, the phones whose \<^verbatim>\<open>contact_id\<close> it is.
\<close>

theorem GetContact_found_or_404:
  assumes "failing db = []" and "ParseUint32 param = Some i"
  shows "(status (fst (GetContact param db)) = 404 \<longleftrightarrow> i \<notin> ID ` set (contacts db)) \<and>
         (i \<in> ID ` set (contacts db) \<longrightarrow>
            (\<exists>r \<in> set (contacts db). ID r = i \<and>
               fst (GetContact param db) =
                 JSON 200 (ContactBody
                   (r\<lparr>AdditionalPhones := filter (\<lambda>p. ContactID p = i) (phones db)\<rparr>))))"
proof (cases "i \<in> ID ` set (contacts db)")
  case True
  obtain r where r: "r \<in> set (contacts db)" "ID r = i"
    "repo_FindByID i db = (Inr (preload db r), db)"
    using repo_FindByID_quiet_some [OF assms(1) True] by blast
  have "fst (GetContact param db) =
          JSON 200 (ContactBody
            (r\<lparr>AdditionalPhones := filter (\<lambda>p. ContactID p = i) (phones db)\<rparr>))"
    by (simp add: GetContact_def assms(2) r preload_def)
  with r True show ?thesis
    by (auto simp: JSON_def)
next
  case False
  then show ?thesis
    by (simp add: GetContact_def assms repo_FindByID_quiet_none JSON_def)
qed

theorem GetContact_found_or_404_witness:
  "status (fst (GetContact ''2'' ann_db)) = 404 \<and>
   fst (GetContact ''1'' ann_db) =
     JSON 200 (ContactBody
       \<lparr>ID = 1, FirstName = ''Ann'', LastName = ''Lee'', Email = ''ann@x.io'',
        PrimaryPhone = ''5551234567'',
        AdditionalPhones =
          [\<lparr>PhoneID = 1, ContactID = 1, Number = ''5559876543'', Type = ''home''\<rparr>]\<rparr>)"
proof -
  have q: "failing ann_db = []"
    by (simp add: ann_db_def)
  show ?thesis
    using GetContact_found_or_404 [OF q ParseUint32_two] GetContact_found_or_404 [OF q ParseUint32_one]
    by (simp add: ann_db_def)
qed

text \<open>
  C6. \<^verbatim>\<open>DELETE /api/contacts/:id\<close> of a stored contact, on a database that executes every
  call: the answer is 200, the rows of the contact and the phones whose \<^verbatim>\<open>contact_id\<close> is
  the \<open>id\<close> are gone from their tables (no row is kept under a deletion mark), and every
  other row, of either table, is as before.
\<close>

theorem DeleteContact_removes_contact_and_phones:
  assumes "failing db = []" and "ParseUint32 param = Some i"
    and "i \<in> ID ` set (contacts db)"
  shows "DeleteContact param db =
           (JSON 200 (MessageBody ''Contact deleted successfully''),
            db\<lparr>phones := filter (\<lambda>p. ContactID p \<noteq> i) (phones db),
               contacts := filter (\<lambda>r. ID r \<noteq> i) (contacts db)\<rparr>)"
proof -
  obtain r where "repo_FindByID i db = (Inr (preload db r), db)"
    using repo_FindByID_quiet_some [OF assms(1,3)] by blast
  then show ?thesis
    by (simp add: DeleteContact_def assms(1,2) repo_Delete_def delete_phones_quiet
        delete_contacts_quiet)
qed

theorem DeleteContact_removes_contact_and_phones_witness:
  "DeleteContact ''1'' pair_db =
     (JSON 200 (MessageBody ''Contact deleted successfully''),
      \<lparr>contacts =
         [\<lparr>ID = 2, FirstName = ''Cy'', LastName = ''Poe'', Email = ''cy@x.io'',
           PrimaryPhone = ''5550001111'', AdditionalPhones = []\<rparr>],
       phones = [\<lparr>PhoneID = 2, ContactID = 2, Number = ''5550002222'', Type = ''work''\<rparr>],
       contact_seq = 3, phone_seq = 3, failing = []\<rparr>)"
proof -
  have q: "failing pair_db = []" "(1::nat) \<in> ID ` set (contacts pair_db)"
    by (simp_all add: pair_db_def)
  show ?thesis
    using DeleteContact_removes_contact_and_phones [OF q(1) ParseUint32_one q(2)]
    by (simp add: pair_db_def)
qed

section \<open>Update\<close>








lemma ann_db_quiet: "failing ann_db = []" "(1::nat) \<in> ID ` set (contacts ann_db)"
  by (simp_all add: ann_db_def)


section \<open>Import\<close>

lemma email_clash:
  "(\<exists>c \<in> set cs. \<exists>r \<in> set rs. Email r = Email c) \<longleftrightarrow>
   set (map Email cs) \<inter> Email ` set rs \<noteq> {}"
  by force

lemma create_contacts_quiet:
  "failing db = [] \<Longrightarrow>
   create_contacts cs db =
     (if cs = [] then (Inl ErrEmptySlice, db)
      else if \<not> distinct (map Email cs) \<or> set (map Email cs) \<inter> Email ` set (contacts db) \<noteq> {}
      then (Inl ErrUnique, db)
      else (Inr (number_from (contact_seq db) cs),
            db\<lparr>contacts := contacts db @ map row_of (number_from (contact_seq db) cs),
               contact_seq := contact_seq db + length cs\<rparr>))"
  unfolding email_clash [symmetric] by (simp add: create_contacts_def Let_def)

lemma row_of_enumerate:
  "\<forall>c \<in> set cs. AdditionalPhones c = [] \<Longrightarrow>
   map row_of (map (\<lambda>(i, c). c\<lparr>ID := n + i\<rparr>) (enumerate m cs)) =
   map (\<lambda>(i, c). c\<lparr>ID := n + i\<rparr>) (enumerate m cs)"
  by (induction cs arbitrary: m) (simp_all add: row_of_def)

lemma row_of_number_from:
  "\<forall>c \<in> set cs. AdditionalPhones c = [] \<Longrightarrow> map row_of (number_from n cs) = number_from n cs"
  unfolding number_from_def by (rule row_of_enumerate)

lemma import_rows_emails:
  "map Email (import_rows rows []) = map CsvEmail (valid_rows rows)"
  by (simp add: import_rows_filter FormatPhoneNumbers_def NewContactCSV_def comp_def)

lemma import_rows_no_phones: "\<forall>c \<in> set (import_rows rows []). AdditionalPhones c = []"
  by (auto simp: import_rows_filter FormatPhoneNumbers_def NewContactCSV_def)

lemma repo_ImportContacts_quiet:
  assumes "failing db = []"
  shows "repo_ImportContacts (import_rows rows []) db =
     (if valid_rows rows = [] then (Some ErrEmptySlice, db)
      else if \<not> distinct (map CsvEmail (valid_rows rows)) \<or>
              set (map CsvEmail (valid_rows rows)) \<inter> Email ` set (contacts db) \<noteq> {}
      then (Some ErrUnique, db)
      else (None,
            db\<lparr>contacts := contacts db @ number_from (contact_seq db) (import_rows rows []),
               contact_seq := contact_seq db + length (valid_rows rows)\<rparr>))"
proof -
  have n: "import_rows rows [] = [] \<longleftrightarrow> valid_rows rows = []"
    and l: "length (import_rows rows []) = length (valid_rows rows)"
    by (simp_all add: import_rows_filter)
  show ?thesis
    by (simp add: repo_ImportContacts_def create_contacts_quiet [OF assms] import_rows_emails n l
        row_of_number_from [OF import_rows_no_phones])
qed

lemma ImportContacts_quiet:
  assumes "failing db = []" and "HasSuffix filename ''.csv''"
  shows "ImportContacts (FormFile filename (Rows rows)) db =
     (if valid_rows rows = [] \<or> \<not> distinct (map CsvEmail (valid_rows rows)) \<or>
         set (map CsvEmail (valid_rows rows)) \<inter> Email ` set (contacts db) \<noteq> {}
      then (JSON 500 (ErrorBody ''Failed to import contacts''), db)
      else (JSON 200 (ImportBody ''Import completed'' (length (valid_rows rows))),
            db\<lparr>contacts :=
                 contacts db @
                 number_from (contact_seq db)
                   (map (\<lambda>r. FormatPhoneNumbers (NewContactCSV r)) (valid_rows rows)),
               contact_seq := contact_seq db + length (valid_rows rows)\<rparr>))"
proof -
  have b: "import_rows rows [] = map (\<lambda>r. FormatPhoneNumbers (NewContactCSV r)) (valid_rows rows)"
    and l: "length (import_rows rows []) = length (valid_rows rows)"
    by (simp_all add: import_rows_filter)
  have i: "ImportContacts (FormFile filename (Rows rows)) db =
            (case repo_ImportContacts (import_rows rows []) db of
               (Some e, db1) \<Rightarrow> (JSON 500 (ErrorBody ''Failed to import contacts''), db1)
             | (None, db1) \<Rightarrow>
                 (JSON 200 (ImportBody ''Import completed'' (length (valid_rows rows))), db1))"
    by (simp add: ImportContacts_def assms(2) Let_def l split: prod.splits option.splits)
  show ?thesis
    by (auto simp: i repo_ImportContacts_quiet [OF assms(1)] b [symmetric])
qed

text \<open>
  C2, amended. The import of a file named \<^verbatim>\<open>*.csv\<close> that parses, on a database that
  executes every call. The rows that fail validation are skipped, and those that pass are
  written by one insert. When at least one row passes, the emails of the passing rows
  differ from each other and none of them is stored, the answer is 200 with the number of
  the passing rows as \<^verbatim>\<open>imported\<close>, and these rows are stored, in their order, after the
  contacts that were there, each with the next key and its phone reduced to its digits; no
  phone row is written. When two passing rows have the same email, or one has a stored
  email, the insert fails: the answer is 500 and nothing is stored.
\<close>

theorem ImportContacts_batch:
  assumes "failing db = []" and "HasSuffix filename ''.csv''"
  shows "(valid_rows rows \<noteq> [] \<and> distinct (map CsvEmail (valid_rows rows)) \<and>
          set (map CsvEmail (valid_rows rows)) \<inter> Email ` set (contacts db) = {} \<longrightarrow>
            fst (ImportContacts (FormFile filename (Rows rows)) db) =
              JSON 200 (ImportBody ''Import completed'' (length (valid_rows rows))) \<and>
            contacts (snd (ImportContacts (FormFile filename (Rows rows)) db)) =
              contacts db @
              number_from (contact_seq db)
                (map (\<lambda>r. FormatPhoneNumbers (NewContactCSV r)) (valid_rows rows)) \<and>
            phones (snd (ImportContacts (FormFile filename (Rows rows)) db)) = phones db) \<and>
         (\<not> distinct (map CsvEmail (valid_rows rows)) \<or>
          set (map CsvEmail (valid_rows rows)) \<inter> Email ` set (contacts db) \<noteq> {} \<longrightarrow>
            ImportContacts (FormFile filename (Rows rows)) db =
              (JSON 500 (ErrorBody ''Failed to import contacts''), db))"
  by (simp add: ImportContacts_quiet [OF assms])

lemma csv_suffix: "HasSuffix ''contacts.csv'' ''.csv''"
  by (simp add: HasSuffix_def)

lemma rows_valid:
  "Validate (NewContactCSV bob_row) = None" "Validate (NewContactCSV ann_row) = None"
  "Validate (NewContactCSV (bob_row\<lparr>CsvEmail := ''bob.x.io''\<rparr>)) \<noteq> None"
  by code_simp+

text \<open>
  C2, as it is stated, fails: a row that passes validation is not stored when the insert of
  the batch fails, here on the email of the other row, which is stored already.
\<close>

theorem valid_rows_not_persisted_counterexample:
  "valid_rows [bob_row, ann_row] = [bob_row, ann_row] \<and>
   ImportContacts (FormFile ''contacts.csv'' (Rows [bob_row, ann_row])) ann_db =
     (JSON 500 (ErrorBody ''Failed to import contacts''), ann_db)"
proof -
  have v: "valid_rows [bob_row, ann_row] = [bob_row, ann_row]"
    by (simp add: valid_rows_def rows_valid)
  have "set (map CsvEmail [bob_row, ann_row]) \<inter> Email ` set (contacts ann_db) \<noteq> {}"
    by (simp add: ann_row_def ann_db_def)
  then show ?thesis
    by (simp add: ImportContacts_quiet [OF ann_db_quiet(1) csv_suffix] v)
qed

theorem ImportContacts_batch_witness:
  "fst (ImportContacts
          (FormFile ''contacts.csv'' (Rows [bob_row\<lparr>CsvEmail := ''bob.x.io''\<rparr>, bob_row])) ann_db) =
     JSON 200 (ImportBody ''Import completed'' 1) \<and>
   map (\<lambda>c. (ID c, Email c, PrimaryPhone c))
     (contacts (snd (ImportContacts
          (FormFile ''contacts.csv'' (Rows [bob_row\<lparr>CsvEmail := ''bob.x.io''\<rparr>, bob_row])) ann_db))) =
     [(1, ''ann@x.io'', ''5551234567''), (2, ''bob@x.io'', ''5552223333'')] \<and>
   ImportContacts (FormFile ''contacts.csv'' (Rows [bob_row, bob_row])) ann_db =
     (JSON 500 (ErrorBody ''Failed to import contacts''), ann_db)"
proof -
  have v: "valid_rows [bob_row\<lparr>CsvEmail := ''bob.x.io''\<rparr>, bob_row] = [bob_row]"
          "valid_rows [bob_row, bob_row] = [bob_row, bob_row]"
    using rows_valid by (simp_all add: valid_rows_def)
  have f: "valid_rows [bob_row\<lparr>CsvEmail := ''bob.x.io''\<rparr>, bob_row] \<noteq> [] \<and>
           distinct (map CsvEmail (valid_rows [bob_row\<lparr>CsvEmail := ''bob.x.io''\<rparr>, bob_row])) \<and>
           set (map CsvEmail (valid_rows [bob_row\<lparr>CsvEmail := ''bob.x.io''\<rparr>, bob_row])) \<inter>
             Email ` set (contacts ann_db) = {}"
    by (simp add: v) (simp add: bob_row_def ann_db_def)
  have g: "\<not> distinct (map CsvEmail (valid_rows [bob_row, bob_row]))"
    by (simp add: v)
  have n: "map (\<lambda>c. (ID c, Email c, PrimaryPhone c))
             (contacts ann_db @
              number_from (contact_seq ann_db)
                (map (\<lambda>r. FormatPhoneNumbers (NewContactCSV r)) [bob_row])) =
           [(1, ''ann@x.io'', ''5551234567''), (2, ''bob@x.io'', ''5552223333'')]"
    by (simp add: ann_db_def number_from_def FormatPhoneNumbers_def NewContactCSV_def bob_row_def
        formatPhoneNumber_def is_digit_def)
  show ?thesis
    using ImportContacts_batch [OF ann_db_quiet(1) csv_suffix,
            of "[bob_row\<lparr>CsvEmail := ''bob.x.io''\<rparr>, bob_row]"]
          ImportContacts_batch [OF ann_db_quiet(1) csv_suffix, of "[bob_row, bob_row]"]
          f g n
    by (simp add: v)
qed

section \<open>Errors of the repository\<close>

text \<open>
  C3, amended. What a handler answers when the database fails a call of the repository. A
  persistence error of \<^verbatim>\<open>List\<close>, \<^verbatim>\<open>Delete\<close>, \<^verbatim>\<open>Create\<close>, \<^verbatim>\<open>Update\<close> or
  \<^verbatim>\<open>ImportContacts\<close> is answered 500, wherever the handler calls the operation: create
  calls \<^verbatim>\<open>Create\<close> after every \<^verbatim>\<open>FindByEmail\<close> that returns an error, and update calls
  \<^verbatim>\<open>Update\<close> after every \<^verbatim>\<open>FindByEmail\<close> that returns an error or the contact itself. A
  persistence error of \<^verbatim>\<open>FindByID\<close> is answered 404, by get, update and delete. A
  persistence error of \<^verbatim>\<open>FindByEmail\<close> is not answered at all: create and update go on to
  the write, and answer 201 and 200 when the write succeeds.
\<close>

theorem repository_errors_by_handler:
  "(fst (repo_List db) = Inl e \<and> persistence_error e \<longrightarrow>
      fst (ListContacts db) = JSON 500 (ErrorBody ''Failed to fetch contacts'')) \<and>
   (ParseUint32 param = Some i \<and> fst (repo_FindByID i db) = Inl e \<and> persistence_error e \<longrightarrow>
      fst (GetContact param db) = JSON 404 (ErrorBody ''Contact not found'') \<and>
      fst (UpdateContact param (Inr req) db) = JSON 404 (ErrorBody ''Contact not found'') \<and>
      fst (DeleteContact param db) = JSON 404 (ErrorBody ''Contact not found'')) \<and>
   (ParseUint32 param = Some i \<and> repo_FindByID i db = (Inr found, db1) \<and>
    fst (repo_Delete i db1) = Some e \<and> persistence_error e \<longrightarrow>
      fst (DeleteContact param db) = JSON 500 (ErrorBody ''Failed to delete contact'')) \<and>
   (Validate (NewContact req) = None \<and> repo_FindByEmail (ReqEmail req) db = (Inl e, db1) \<longrightarrow>
      (fst (repo_Create (FormatPhoneNumbers (NewContact req)) db1) = Inl e' \<and>
       persistence_error e' \<longrightarrow>
         fst (CreateContact (Inr req) db) = JSON 500 (ErrorBody ''Failed to create contact'')) \<and>
      (persistence_error e \<and>
       fst (repo_Create (FormatPhoneNumbers (NewContact req)) db1) = Inr c \<longrightarrow>
         fst (CreateContact (Inr req) db) = JSON 201 (ContactBody c))) \<and>
   (ParseUint32 param = Some i \<and> repo_FindByID i db = (Inr found, db1) \<and>
    Validate (NewContact req) = None \<and> repo_FindByEmail (ReqEmail req) db1 = (r, db2) \<and>
    (\<forall>emailContact. r = Inr emailContact \<longrightarrow> ID emailContact = ID found) \<longrightarrow>
      (fst (repo_Update (FormatPhoneNumbers (update_fields found req)) db2) = Inl e' \<and>
       persistence_error e' \<longrightarrow>
         fst (UpdateContact param (Inr req) db) =
           JSON 500 (ErrorBody ''Failed to update contact'')) \<and>
      (r = Inl e \<and> persistence_error e \<and>
       fst (repo_Update (FormatPhoneNumbers (update_fields found req)) db2) = Inr c \<longrightarrow>
         fst (UpdateContact param (Inr req) db) = JSON 200 (ContactBody c))) \<and>
   (HasSuffix filename ''.csv'' \<and>
    fst (repo_ImportContacts (import_rows rows []) db) = Some e \<and> persistence_error e \<longrightarrow>
      fst (ImportContacts (FormFile filename (Rows rows)) db) =
        JSON 500 (ErrorBody ''Failed to import contacts''))"
proof -
  have l: "fst (ListContacts db) = JSON 500 (ErrorBody ''Failed to fetch contacts'')"
    if "fst (repo_List db) = Inl e"
    using that by (cases "repo_List db") (simp add: ListContacts_def)
  have f: "fst (GetContact param db) = JSON 404 (ErrorBody ''Contact not found'') \<and>
           fst (UpdateContact param (Inr req) db) = JSON 404 (ErrorBody ''Contact not found'') \<and>
           fst (DeleteContact param db) = JSON 404 (ErrorBody ''Contact not found'')"
    if "ParseUint32 param = Some i" "fst (repo_FindByID i db) = Inl e"
    using that
    by (cases "repo_FindByID i db") (simp add: GetContact_def UpdateContact_def DeleteContact_def)
  have d: "fst (DeleteContact param db) = JSON 500 (ErrorBody ''Failed to delete contact'')"
    if "ParseUint32 param = Some i" "repo_FindByID i db = (Inr found, db1)"
       "fst (repo_Delete i db1) = Some e"
    using that by (cases "repo_Delete i db1") (simp add: DeleteContact_def)
  have c: "(fst (repo_Create (FormatPhoneNumbers (NewContact req)) db1) = Inl e' \<longrightarrow>
              fst (CreateContact (Inr req) db) = JSON 500 (ErrorBody ''Failed to create contact'')) \<and>
           (fst (repo_Create (FormatPhoneNumbers (NewContact req)) db1) = Inr c \<longrightarrow>
              fst (CreateContact (Inr req) db) = JSON 201 (ContactBody c))"
    if "Validate (NewContact req) = None" "repo_FindByEmail (ReqEmail req) db = (Inl e, db1)"
    using that
    by (cases "repo_Create (FormatPhoneNumbers (NewContact req)) db1")
       (auto simp: CreateContact_def)
  have u: "(fst (repo_Update (FormatPhoneNumbers (update_fields found req)) db2) = Inl e' \<longrightarrow>
              fst (UpdateContact param (Inr req) db) =
                JSON 500 (ErrorBody ''Failed to update contact'')) \<and>
           (fst (repo_Update (FormatPhoneNumbers (update_fields found req)) db2) = Inr c \<longrightarrow>
              fst (UpdateContact param (Inr req) db) = JSON 200 (ContactBody c))"
    if h: "ParseUint32 param = Some i" "repo_FindByID i db = (Inr found, db1)"
       "Validate (NewContact req) = None" "repo_FindByEmail (ReqEmail req) db1 = (r, db2)"
       "\<forall>emailContact. r = Inr emailContact \<longrightarrow> ID emailContact = ID found"
  proof -
    have k: "ID (FormatPhoneNumbers (update_fields found req)) = ID found"
      by (simp add: FormatPhoneNumbers_def update_fields_def)
    have n: "\<not> (case r of Inl e \<Rightarrow> False
                | Inr emailContact \<Rightarrow>
                    ID emailContact \<noteq> ID (FormatPhoneNumbers (update_fields found req)))"
      using h(5) by (cases r) (simp_all add: k)
    show ?thesis
      using h(1-4) n
      by (cases "repo_Update (FormatPhoneNumbers (update_fields found req)) db2")
         (auto simp: UpdateContact_def Validate_update_fields Let_def)
  qed
  have m: "fst (ImportContacts (FormFile filename (Rows rows)) db) =
             JSON 500 (ErrorBody ''Failed to import contacts'')"
    if "HasSuffix filename ''.csv''" "fst (repo_ImportContacts (import_rows rows []) db) = Some e"
    using that
    by (cases "repo_ImportContacts (import_rows rows []) db") (simp add: ImportContacts_def)
  from l f d c u m show ?thesis
    by blast
qed


text \<open>The repository under a script of failures.\<close>

lemmas run_defs =
  tick_def first_contact_def find_contacts_def count_contacts_def count_phones_def
  create_contact_def create_contacts_def delete_phones_def delete_contacts_def
  repo_FindByID_def repo_FindByEmail_def repo_List_def repo_Delete_def repo_Create_def
  repo_Update_def repo_ImportContacts_def CheckDuplicatePhone_def

text \<open>
  C3, as it is stated, fails: when the driver fails the query of \<^verbatim>\<open>FindByID\<close> for a stored
  contact, get answers 404; and when it fails the query of \<^verbatim>\<open>FindByEmail\<close>, create
  answers 201.
\<close>

theorem lookup_failure_is_404_counterexample:
  "fst (repo_FindByID 1 (ann_db\<lparr>failing := [True]\<rparr>)) = Inl ErrDriver \<and>
   fst (GetContact ''1'' (ann_db\<lparr>failing := [True]\<rparr>)) =
     JSON 404 (ErrorBody ''Contact not found'') \<and>
   fst (repo_FindByEmail ''bob@x.io'' (ann_db\<lparr>failing := [True]\<rparr>)) = Inl ErrDriver \<and>
   status (fst (CreateContact (Inr bob_request) (ann_db\<lparr>failing := [True]\<rparr>))) = 201"
proof -
  have a: "repo_FindByID 1 (ann_db\<lparr>failing := [True]\<rparr>) = (Inl ErrDriver, ann_db)"
    by (simp add: run_defs ann_db_def)
  have b: "repo_FindByEmail ''bob@x.io'' (ann_db\<lparr>failing := [True]\<rparr>) = (Inl ErrDriver, ann_db)"
    by (simp add: run_defs ann_db_def)
  have c: "\<exists>c db'. repo_Create (FormatPhoneNumbers (NewContact bob_request)) ann_db = (Inr c, db')"
    using bob_fresh
    by (intro repo_Create_quiet_Inr)
       (force simp: request_numbers_stored FormatPhoneNumbers_def NewContact_def image_iff)+
  have e: "ReqEmail bob_request = ''bob@x.io''"
    by (simp add: bob_request_def)
  from c show ?thesis
    by (auto simp: a b e GetContact_def ParseUint32_one CreateContact_def bob_valid JSON_def
        simp del: One_nat_def)
qed


lemma first_call_fails:
  assumes "failing db = True # fs"
  shows "repo_List db = (Inl ErrDriver, db\<lparr>failing := fs\<rparr>)"
    and "repo_FindByID i db = (Inl ErrDriver, db\<lparr>failing := fs\<rparr>)"
    and "repo_FindByEmail email db = (Inl ErrDriver, db\<lparr>failing := fs\<rparr>)"
    and "repo_Create c db = (Inl ErrDriver, db\<lparr>failing := fs\<rparr>)"
    and "repo_Update c db = (Inl ErrDriver, db\<lparr>failing := fs\<rparr>)"
    and "repo_Delete i db = (Some ErrDriver, db\<lparr>failing := fs\<rparr>)"
    and "repo_ImportContacts cs db = (Some ErrDriver, db\<lparr>failing := fs\<rparr>)"
  by (simp_all add: run_defs assms)

lemma first_call_runs:
  assumes "failing db = False # fs"
  shows "repo_FindByID i db =
           (case filter (\<lambda>r. ID r = i) (contacts db) of
              [] \<Rightarrow> (Inl ErrRecordNotFound, db\<lparr>failing := fs\<rparr>)
            | r # rs \<Rightarrow> (Inr (preload db (arg_min_list ID (r # rs))), db\<lparr>failing := fs\<rparr>))"
    and "repo_FindByEmail email db =
           (case filter (\<lambda>r. Email r = email) (contacts db) of
              [] \<Rightarrow> (Inl ErrRecordNotFound, db\<lparr>failing := fs\<rparr>)
            | r # rs \<Rightarrow> (Inr (preload db (arg_min_list ID (r # rs))), db\<lparr>failing := fs\<rparr>))"
  by (simp_all add: run_defs assms preload_def split: list.splits)

theorem repository_errors_by_handler_witness:
  "fst (ListContacts (ann_db\<lparr>failing := [True]\<rparr>)) =
     JSON 500 (ErrorBody ''Failed to fetch contacts'') \<and>
   fst (DeleteContact ''1'' (ann_db\<lparr>failing := [True]\<rparr>)) =
     JSON 404 (ErrorBody ''Contact not found'') \<and>
   fst (DeleteContact ''1'' (ann_db\<lparr>failing := [False, True]\<rparr>)) =
     JSON 500 (ErrorBody ''Failed to delete contact'') \<and>
   fst (CreateContact (Inr bob_request) (ann_db\<lparr>failing := [True, True]\<rparr>)) =
     JSON 500 (ErrorBody ''Failed to create contact'') \<and>
   fst (UpdateContact ''1'' (Inr bob_request) (ann_db\<lparr>failing := [False, True, True]\<rparr>)) =
     JSON 500 (ErrorBody ''Failed to update contact'') \<and>
   fst (UpdateContact ''1'' (Inr ann_request) (ann_db\<lparr>failing := [False, False, True]\<rparr>)) =
     JSON 500 (ErrorBody ''Failed to update contact'') \<and>
   fst (ImportContacts (FormFile ''contacts.csv'' (Rows [bob_row])) (ann_db\<lparr>failing := [True]\<rparr>)) =
     JSON 500 (ErrorBody ''Failed to import contacts'')"
proof -
  let ?down = "ann_db\<lparr>failing := [True]\<rparr>"
  let ?found = "preload (ann_db\<lparr>failing := [False, True]\<rparr>) (hd (contacts ann_db))"
  let ?found' = "preload (ann_db\<lparr>failing := [False, True, True]\<rparr>) (hd (contacts ann_db))"
  let ?found2 = "preload (ann_db\<lparr>failing := [False, False, True]\<rparr>) (hd (contacts ann_db))"
  let ?self = "preload (ann_db\<lparr>failing := [False, True]\<rparr>) (hd (contacts ann_db))"
  have p: "persistence_error ErrDriver"
    by simp
  have l: "fst (repo_List ?down) = Inl ErrDriver"
    and f: "fst (repo_FindByID 1 ?down) = Inl ErrDriver"
    and i: "fst (repo_ImportContacts (import_rows [bob_row] []) ?down) = Some ErrDriver"
    by (simp_all add: first_call_fails [of _ "[]"])
  have d: "repo_FindByID 1 (ann_db\<lparr>failing := [False, True]\<rparr>) = (Inr ?found, ?down)"
    by (simp add: first_call_runs [of _ "[True]"]) (simp add: ann_db_def)
  have d': "fst (repo_Delete 1 ?down) = Some ErrDriver"
    by (simp add: first_call_fails [of _ "[]"])
  have c: "repo_FindByEmail (ReqEmail bob_request) (ann_db\<lparr>failing := [True, True]\<rparr>) =
             (Inl ErrDriver, ?down)"
    by (simp add: first_call_fails [of _ "[True]"])
  have c': "fst (repo_Create (FormatPhoneNumbers (NewContact bob_request)) ?down) = Inl ErrDriver"
    by (simp add: first_call_fails [of _ "[]"])
  have u: "repo_FindByID 1 (ann_db\<lparr>failing := [False, True, True]\<rparr>) =
             (Inr ?found', ann_db\<lparr>failing := [True, True]\<rparr>)"
    by (simp add: first_call_runs [of _ "[True, True]"]) (simp add: ann_db_def)
  have u': "fst (repo_Update (FormatPhoneNumbers (update_fields ?found' bob_request)) ?down) =
              Inl ErrDriver"
    by (simp add: first_call_fails [of _ "[]"])
  have w: "repo_FindByID 1 (ann_db\<lparr>failing := [False, False, True]\<rparr>) =
             (Inr ?found2, ann_db\<lparr>failing := [False, True]\<rparr>)"
    by (simp add: first_call_runs [of _ "[False, True]"]) (simp add: ann_db_def)
  have w': "repo_FindByEmail (ReqEmail ann_request) (ann_db\<lparr>failing := [False, True]\<rparr>) =
              (Inr ?self, ?down)"
    by (simp add: first_call_runs [of _ "[True]"]) (simp add: ann_db_def ann_request_def)
  have w'': "\<forall>emailContact. Inr ?self = (Inr emailContact :: err + contact) \<longrightarrow>
               ID emailContact = ID ?found2"
    by (simp add: preload_def)
  have w3: "fst (repo_Update (FormatPhoneNumbers (update_fields ?found2 ann_request)) ?down) =
              Inl ErrDriver"
    by (simp add: first_call_fails [of _ "[]"])
  have v: "Validate (NewContact ann_request) = None"
    by code_simp
  note t = repository_errors_by_handler
  have 1: "fst (ListContacts ?down) = JSON 500 (ErrorBody ''Failed to fetch contacts'')"
    using t [where db = ?down and e = ErrDriver] l p by blast
  have 2: "fst (DeleteContact ''1'' ?down) = JSON 404 (ErrorBody ''Contact not found'')"
    using t [where db = ?down and e = ErrDriver and param = "''1''" and i = 1] f p ParseUint32_one
    by blast
  have 3: "fst (DeleteContact ''1'' (ann_db\<lparr>failing := [False, True]\<rparr>)) =
             JSON 500 (ErrorBody ''Failed to delete contact'')"
    using t [where db = "ann_db\<lparr>failing := [False, True]\<rparr>" and e = ErrDriver and param = "''1''"
               and i = 1 and found = ?found and ?db1.0 = ?down] d d' p ParseUint32_one
    by blast
  have 4: "fst (CreateContact (Inr bob_request) (ann_db\<lparr>failing := [True, True]\<rparr>)) =
             JSON 500 (ErrorBody ''Failed to create contact'')"
    using t [where db = "ann_db\<lparr>failing := [True, True]\<rparr>" and e = ErrDriver
               and req = bob_request and ?db1.0 = ?down and e' = ErrDriver] c c' p bob_valid
    by blast
  have 5: "fst (UpdateContact ''1'' (Inr bob_request) (ann_db\<lparr>failing := [False, True, True]\<rparr>)) =
             JSON 500 (ErrorBody ''Failed to update contact'')"
    using t [where db = "ann_db\<lparr>failing := [False, True, True]\<rparr>" and e = ErrDriver
               and param = "''1''" and i = 1 and req = bob_request and found = ?found'
               and ?db1.0 = "ann_db\<lparr>failing := [True, True]\<rparr>" and ?db2.0 = ?down
               and r = "Inl ErrDriver" and e' = ErrDriver]
          u u' c p ParseUint32_one bob_valid
    by blast
  have 6: "fst (UpdateContact ''1'' (Inr ann_request) (ann_db\<lparr>failing := [False, False, True]\<rparr>)) =
             JSON 500 (ErrorBody ''Failed to update contact'')"
    using t [where db = "ann_db\<lparr>failing := [False, False, True]\<rparr>"
               and param = "''1''" and i = 1 and req = ann_request and found = ?found2
               and ?db1.0 = "ann_db\<lparr>failing := [False, True]\<rparr>" and ?db2.0 = ?down
               and r = "Inr ?self" and e' = ErrDriver]
          w w' w'' w3 p ParseUint32_one v
    by blast
  have 7: "fst (ImportContacts (FormFile ''contacts.csv'' (Rows [bob_row])) ?down) =
             JSON 500 (ErrorBody ''Failed to import contacts'')"
    using t [where db = ?down and e = ErrDriver and filename = "''contacts.csv''"
               and rows = "[bob_row]"] i p csv_suffix
    by blast
  from 1 2 3 4 5 6 7 show ?thesis
    by (intro conjI)
qed
section \<open>The stored contacts are valid\<close>

text \<open>
  The lemmas of this section hold for every script of failures: a call that fails leaves
  the tables as they were, and a call that is executed writes rows that have passed
  \<^verbatim>\<open>Validate\<close> and \<^verbatim>\<open>FormatPhoneNumbers\<close>, or gives a stored phone to another contact
  and leaves its number as it is.
\<close>

lemma contact_ok_fields [simp]:
  "contact_ok (c\<lparr>ID := n\<rparr>) = contact_ok c"
  "contact_ok (c\<lparr>AdditionalPhones := ps\<rparr>) = contact_ok c"
  "contact_ok (row_of c) = contact_ok c"
  by (simp_all add: contact_ok_def row_of_def)

lemma phone_ok_fields [simp]:
  "phone_ok (p\<lparr>PhoneID := n\<rparr>) = phone_ok p"
  "phone_ok (p\<lparr>ContactID := n\<rparr>) = phone_ok p"
  by (simp_all add: phone_ok_def)

lemma Validate_contact_ok:
  assumes "Validate c = None"
  shows "contact_ok (FormatPhoneNumbers c)"
    and "list_all phone_ok (AdditionalPhones (FormatPhoneNumbers c))"
  using assms
  by (simp_all add: Validate_None_iff contact_ok_def phone_ok_def FormatPhoneNumbers_def
      formatPhoneNumber_def isValidPhone_def list_all_iff Let_def)

lemma number_phones_from_ok [simp]:
  "list_all phone_ok (number_phones_from n ps) = list_all phone_ok ps"
  by (auto simp: list_all_length number_phones_from_def nth_enumerate_eq)

lemma number_from_ok [simp]:
  "list_all contact_ok (map row_of (number_from n cs)) = list_all contact_ok cs"
  by (auto simp: list_all_length number_from_def nth_enumerate_eq)

lemma own_phones_ok [simp]:
  "list_all phone_ok (own_phones c) = list_all phone_ok (AdditionalPhones c)"
  by (simp add: own_phones_def list_all_iff)

lemma tick_tables:
  "tick db = (b, db') \<Longrightarrow> contacts db' = contacts db \<and> phones db' = phones db"
  by (auto simp: tick_def split: list.splits)

lemma tick_ok: "tick db = (b, db') \<Longrightarrow> db_ok db' = db_ok db"
  by (auto simp: db_ok_def dest: tick_tables)

lemma count_ok:
  "count_contacts q db = (r, db') \<Longrightarrow> db_ok db' = db_ok db"
  "count_phones q' db = (r, db') \<Longrightarrow> db_ok db' = db_ok db"
  by (auto simp: count_contacts_def count_phones_def split: prod.splits bool.splits dest: tick_ok)

lemma CheckDuplicatePhone_ok:
  "CheckDuplicatePhone n e db = (r, db') \<Longrightarrow> db_ok db' = db_ok db"
  by (auto simp: CheckDuplicatePhone_def split: prod.splits sum.splits if_splits dest: count_ok)

lemma check_additional_ok:
  "check_additional ps e db = (r, db') \<Longrightarrow> db_ok db' = db_ok db"
  by (induction ps arbitrary: db)
     (auto split: prod.splits sum.splits if_splits dest: CheckDuplicatePhone_ok)

lemma first_contact_ok:
  "first_contact q db = (r, db') \<Longrightarrow> db_ok db' = db_ok db"
  by (auto simp: first_contact_def split: prod.splits bool.splits list.splits dest: tick_ok)

lemma find_contacts_ok:
  "find_contacts db = (r, db') \<Longrightarrow> db_ok db' = db_ok db"
  by (auto simp: find_contacts_def split: prod.splits bool.splits dest: tick_ok)

lemma upsert_phones_ok:
  "upsert_phones fk sent ps rows seq = (ps', rows', seq') \<Longrightarrow>
   list_all phone_ok ps \<Longrightarrow> list_all phone_ok rows \<Longrightarrow>
   list_all phone_ok ps' \<and> list_all phone_ok rows'"
proof (induction ps arbitrary: sent rows seq ps' rows' seq')
  case Nil
  then show ?case by simp
next
  case (Cons p ps)
  have p: "phone_ok p" and ps: "list_all phone_ok ps"
    using Cons.prems(2) by simp_all
  let ?rows = "if \<exists>r \<in> set rows. PhoneID r = PhoneID p
               then map (\<lambda>r. if PhoneID r = PhoneID p then r\<lparr>ContactID := fk\<rparr> else r) rows
               else rows @ [p\<lparr>ContactID := fk\<rparr>]"
  have a: "list_all phone_ok (rows @ [p\<lparr>ContactID := fk, PhoneID := seq\<rparr>])"
    using Cons.prems(3) p by simp
  have b: "list_all phone_ok ?rows"
    using Cons.prems(3) p by (auto simp: list_all_iff)
  show ?case
  proof (cases "PhoneID p = 0")
    case True
    then obtain ps1 where 1:
      "upsert_phones fk sent ps (rows @ [p\<lparr>ContactID := fk, PhoneID := seq\<rparr>]) (Suc seq) =
         (ps1, rows', seq')" and 2: "ps' = p\<lparr>ContactID := fk, PhoneID := seq\<rparr> # ps1"
      using Cons.prems(1) by (auto split: prod.splits)
    from Cons.IH [OF 1 ps a] 2 p show ?thesis
      by simp
  next
    case key: False
    show ?thesis
    proof (cases "PhoneID p \<in> set sent")
      case True
      then obtain ps1 where 1: "upsert_phones fk sent ps rows seq = (ps1, rows', seq')"
        and 2: "ps' = p\<lparr>ContactID := fk\<rparr> # ps1"
        using Cons.prems(1) key by (auto split: prod.splits)
      from Cons.IH [OF 1 ps Cons.prems(3)] 2 p show ?thesis
        by simp
    next
      case False
      obtain ps1 where 1: "upsert_phones fk (PhoneID p # sent) ps ?rows seq = (ps1, rows', seq')"
        and 2: "ps' = p\<lparr>ContactID := fk\<rparr> # ps1"
        using Cons.prems(1) key False by (auto split: prod.splits)
      from Cons.IH [OF 1 ps b] 2 p show ?thesis
        by simp
    qed
  qed
qed

lemma save_association_ok:
  assumes "save_association c db = (c', db')" and "list_all phone_ok (AdditionalPhones c)"
    and "db_ok db"
  shows "db_ok db'" and "list_all phone_ok (AdditionalPhones c')"
proof -
  obtain ps rows seq
    where u: "upsert_phones (ID c) [] (AdditionalPhones c) (phones db) (phone_seq db) =
                (ps, rows, seq)"
    by (cases "upsert_phones (ID c) [] (AdditionalPhones c) (phones db) (phone_seq db)")
  have "list_all phone_ok ps \<and> list_all phone_ok rows"
    using upsert_phones_ok [OF u assms(2)] assms(3) by (simp add: db_ok_def)
  moreover have "c' = c\<lparr>AdditionalPhones := ps\<rparr>" "db' = db\<lparr>phones := rows, phone_seq := seq\<rparr>"
    using assms(1) by (simp_all add: save_association_def u)
  ultimately show "db_ok db'" and "list_all phone_ok (AdditionalPhones c')"
    using assms(3) by (simp_all add: db_ok_def)
qed

lemma create_contact_ok:
  assumes "create_contact c db = (r, db')" and "contact_ok c"
    and "list_all phone_ok (AdditionalPhones c)" and "db_ok db"
  shows "db_ok db' \<and> (\<forall>c1. r = Inr c1 \<longrightarrow> list_all phone_ok (AdditionalPhones c1))"
proof -
  obtain b db1 where t: "tick db = (b, db1)"
    by (cases "tick db")
  have ok1: "db_ok db1"
    using tick_ok [OF t] assms(4) by simp
  let ?c = "c\<lparr>ID := contact_seq db1\<rparr>"
  let ?db = "db1\<lparr>contacts := contacts db1 @ [row_of ?c], contact_seq := Suc (contact_seq db1)\<rparr>"
  obtain c2 db2 where a: "save_association ?c ?db = (c2, db2)"
    by (cases "save_association ?c ?db")
  have "db_ok ?db"
    using ok1 assms(2) by (simp add: db_ok_def)
  from save_association_ok [OF a _ this] assms(3)
  have "db_ok db2" "list_all phone_ok (AdditionalPhones c2)"
    by simp_all
  with assms(1) t a ok1 show ?thesis
    by (cases b) (auto simp: create_contact_def Let_def split: if_splits)
qed

lemma create_contacts_ok:
  "create_contacts cs db = (r, db') \<Longrightarrow> list_all contact_ok cs \<Longrightarrow> db_ok db \<Longrightarrow> db_ok db'"
  by (auto simp: create_contacts_def db_ok_def Let_def
      split: prod.splits bool.splits if_splits dest: tick_tables)

lemma create_phones_ok:
  "create_phones ps db = (r, db') \<Longrightarrow> list_all phone_ok ps \<Longrightarrow> db_ok db \<Longrightarrow> db_ok db'"
  by (auto simp: create_phones_def db_ok_def Let_def
      split: prod.splits bool.splits if_splits dest: tick_tables)

lemma delete_ok:
  "delete_phones q db = (r, db') \<Longrightarrow> db_ok db \<Longrightarrow> db_ok db'"
  "delete_contacts q' db = (r, db') \<Longrightarrow> db_ok db \<Longrightarrow> db_ok db'"
  by (auto simp: delete_phones_def delete_contacts_def db_ok_def list_all_iff
      split: prod.splits bool.splits dest: tick_tables)

lemma save_contact_ok:
  assumes "save_contact c db = (r, db')" and "contact_ok c"
    and "list_all phone_ok (AdditionalPhones c)" and "db_ok db"
  shows "db_ok db' \<and> (\<forall>c1. r = Inr c1 \<longrightarrow> list_all phone_ok (AdditionalPhones c1))"
proof (cases "ID c = 0")
  case True
  with assms create_contact_ok [of c db r db'] show ?thesis
    by (simp add: save_contact_def)
next
  case False
  obtain b db1 where t: "tick db = (b, db1)"
    by (cases "tick db")
  have ok1: "db_ok db1"
    using tick_ok [OF t] assms(4) by simp
  let ?db = "db1\<lparr>contacts :=
                  if \<exists>r \<in> set (contacts db1). ID r = ID c
                  then map (\<lambda>r. if ID r = ID c then row_of c else r) (contacts db1)
                  else contacts db1 @ [row_of c]\<rparr>"
  obtain c2 db2 where a: "save_association c ?db = (c2, db2)"
    by (cases "save_association c ?db")
  have "db_ok ?db"
    using ok1 assms(2) by (auto simp: db_ok_def list_all_iff)
  from save_association_ok [OF a assms(3) this]
  have "db_ok db2" "list_all phone_ok (AdditionalPhones c2)"
    by simp_all
  with assms(1) False t a ok1 show ?thesis
    by (cases b) (auto simp: save_contact_def split: if_splits)
qed

lemma save_phones_ok:
  "save_phones c db = (r, db') \<Longrightarrow> list_all phone_ok (AdditionalPhones c) \<Longrightarrow> db_ok db \<Longrightarrow>
   db_ok db'"
  by (auto simp: save_phones_def Let_def split: prod.splits sum.splits if_splits
      dest: create_phones_ok)


lemma repo_Create_ok:
  assumes "repo_Create c db = (r, db')" and "contact_ok c"
    and "list_all phone_ok (AdditionalPhones c)" and "db_ok db"
  shows "db_ok db'"
proof -
  obtain r1 db1 where 1: "CheckDuplicatePhone (PrimaryPhone c) 0 db = (r1, db1)"
    by (cases "CheckDuplicatePhone (PrimaryPhone c) 0 db")
  obtain r2 db2 where 2: "check_additional (AdditionalPhones c) 0 db1 = (r2, db2)"
    by (cases "check_additional (AdditionalPhones c) 0 db1")
  obtain r3 db3 where 3: "create_contact c db2 = (r3, db3)"
    by (cases "create_contact c db2")
  have ok1: "db_ok db1"
    using CheckDuplicatePhone_ok [OF 1] assms(4) by simp
  have ok2: "db_ok db2"
    using check_additional_ok [OF 2] ok1 by simp
  have ok3: "db_ok db3" "\<And>c1. r3 = Inr c1 \<Longrightarrow> list_all phone_ok (AdditionalPhones c1)"
    using create_contact_ok [OF 3 assms(2,3) ok2] by simp_all
  have 4: "db_ok db4" if "r3 = Inr c1" "save_phones c1 db3 = (r4, db4)" for c1 r4 db4
    using save_phones_ok [OF that(2) ok3(2) [OF that(1)] ok3(1)] .
  show ?thesis
    using assms(1) 1 2 3 ok1 ok2 ok3(1) 4
    by (auto simp: repo_Create_def split: sum.splits option.splits if_splits)
qed

lemma repo_Update_ok:
  assumes "repo_Update c db = (r, db')" and "contact_ok c"
    and "list_all phone_ok (AdditionalPhones c)" and "db_ok db"
  shows "db_ok db'"
proof -
  obtain r1 db1 where 1: "CheckDuplicatePhone (PrimaryPhone c) (ID c) db = (r1, db1)"
    by (cases "CheckDuplicatePhone (PrimaryPhone c) (ID c) db")
  obtain r2 db2 where 2: "check_additional (AdditionalPhones c) (ID c) db1 = (r2, db2)"
    by (cases "check_additional (AdditionalPhones c) (ID c) db1")
  obtain r3 db3 where 3: "save_contact c db2 = (r3, db3)"
    by (cases "save_contact c db2")
  have ok1: "db_ok db1"
    using CheckDuplicatePhone_ok [OF 1] assms(4) by simp
  have ok2: "db_ok db2"
    using check_additional_ok [OF 2] ok1 by simp
  have ok3: "db_ok db3" "\<And>c1. r3 = Inr c1 \<Longrightarrow> list_all phone_ok (AdditionalPhones c1)"
    using save_contact_ok [OF 3 assms(2,3) ok2] by simp_all
  have 4: "db_ok db4" if "delete_phones q db3 = (r4, db4)" for q r4 db4
    using delete_ok(1) [OF that ok3(1)] .
  have 5: "db_ok db5"
    if "r3 = Inr c1" "delete_phones q db3 = (r4, db4)" "save_phones c1 db4 = (r5, db5)"
    for c1 q r4 db4 r5 db5
    using save_phones_ok [OF that(3) ok3(2) [OF that(1)] 4 [OF that(2)]] .
  show ?thesis
    using assms(1) 1 2 3 ok1 ok2 ok3(1) 4 5
    by (auto simp: repo_Update_def split: sum.splits option.splits if_splits prod.splits)
qed

lemma repo_Delete_ok: "repo_Delete i db = (r, db') \<Longrightarrow> db_ok db \<Longrightarrow> db_ok db'"
  by (auto simp: repo_Delete_def split: prod.splits option.splits dest: delete_ok)

lemma repo_find_ok:
  "repo_FindByID i db = (r, db') \<Longrightarrow> db_ok db' = db_ok db"
  "repo_FindByEmail email db = (r, db') \<Longrightarrow> db_ok db' = db_ok db"
  "repo_List db = (r', db') \<Longrightarrow> db_ok db' = db_ok db"
  by (auto simp: repo_FindByID_def repo_FindByEmail_def repo_List_def
      dest: first_contact_ok find_contacts_ok)

lemma import_rows_ok: "list_all contact_ok (import_rows rows [])"
  by (simp add: import_rows_filter list_all_iff valid_rows_def Validate_contact_ok(1))

lemma repo_ImportContacts_ok:
  "repo_ImportContacts cs db = (r, db') \<Longrightarrow> list_all contact_ok cs \<Longrightarrow> db_ok db \<Longrightarrow> db_ok db'"
  by (auto simp: repo_ImportContacts_def split: prod.splits sum.splits dest: create_contacts_ok)


lemma CreateContact_ok:
  assumes "db_ok db"
  shows "db_ok (snd (CreateContact bound db))"
proof (cases bound)
  case (Inl m)
  with assms show ?thesis
    by (simp add: CreateContact_def)
next
  case (Inr req)
  show ?thesis
  proof (cases "Validate (NewContact req)")
    case (Some m)
    with assms Inr show ?thesis
      by (simp add: CreateContact_invalid)
  next
    case None
    obtain r1 db1 where 1: "repo_FindByEmail (ReqEmail req) db = (r1, db1)"
      by (cases "repo_FindByEmail (ReqEmail req) db")
    obtain r2 db2 where 2: "repo_Create (FormatPhoneNumbers (NewContact req)) db1 = (r2, db2)"
      by (cases "repo_Create (FormatPhoneNumbers (NewContact req)) db1")
    have ok1: "db_ok db1"
      using repo_find_ok(2) [OF 1] assms by simp
    have ok2: "db_ok db2"
      using repo_Create_ok [OF 2 Validate_contact_ok [OF None] ok1] .
    show ?thesis
      using ok1 ok2
      by (simp add: CreateContact_def Inr None 1 2 Let_def split: sum.splits)
  qed
qed

lemma UpdateContact_ok:
  assumes "db_ok db"
  shows "db_ok (snd (UpdateContact param bound db))"
proof (cases "ParseUint32 param")
  case None
  with assms show ?thesis
    by (simp add: UpdateContact_def)
next
  case (Some i)
  show ?thesis
  proof (cases bound)
    case (Inl m)
    with assms Some show ?thesis
      by (simp add: UpdateContact_def)
  next
    case (Inr req)
    obtain r1 db1 where 1: "repo_FindByID i db = (r1, db1)"
      by (cases "repo_FindByID i db")
    have ok1: "db_ok db1"
      using repo_find_ok(1) [OF 1] assms by simp
    show ?thesis
    proof (cases r1)
      case (Inl e)
      with ok1 show ?thesis
        by (simp add: UpdateContact_def Some \<open>bound = Inr req\<close> 1)
    next
      case found: (Inr found)
      show ?thesis
      proof (cases "Validate (update_fields found req)")
        case (Some m)
        with ok1 show ?thesis
          by (simp add: UpdateContact_def \<open>ParseUint32 param = Some i\<close> Inr 1 found)
      next
        case None
        let ?c = "FormatPhoneNumbers (update_fields found req)"
        obtain r2 db2 where 2: "repo_FindByEmail (ReqEmail req) db1 = (r2, db2)"
          by (cases "repo_FindByEmail (ReqEmail req) db1")
        obtain r3 db3 where 3: "repo_Update ?c db2 = (r3, db3)"
          by (cases "repo_Update ?c db2")
        have ok2: "db_ok db2"
          using repo_find_ok(2) [OF 2] ok1 by simp
        have ok3: "db_ok db3"
          using repo_Update_ok [OF 3 Validate_contact_ok [OF None] ok2] .
        show ?thesis
          using ok2 ok3
          by (simp add: UpdateContact_def \<open>ParseUint32 param = Some i\<close> Inr 1 found None 2 3
              Let_def split: sum.splits)
      qed
    qed
  qed
qed

lemma DeleteContact_ok:
  assumes "db_ok db"
  shows "db_ok (snd (DeleteContact param db))"
proof (cases "ParseUint32 param")
  case None
  with assms show ?thesis
    by (simp add: DeleteContact_def)
next
  case (Some i)
  obtain r1 db1 where 1: "repo_FindByID i db = (r1, db1)"
    by (cases "repo_FindByID i db")
  obtain r2 db2 where 2: "repo_Delete i db1 = (r2, db2)"
    by (cases "repo_Delete i db1")
  have ok1: "db_ok db1"
    using repo_find_ok(1) [OF 1] assms by simp
  have ok2: "db_ok db2"
    using repo_Delete_ok [OF 2 ok1] .
  show ?thesis
    using ok1 ok2 by (simp add: DeleteContact_def Some 1 2 split: sum.splits option.splits)
qed

lemma read_handlers_ok:
  assumes "db_ok db"
  shows "db_ok (snd (GetContact param db))" and "db_ok (snd (ListContacts db))"
proof -
  show "db_ok (snd (GetContact param db))"
  proof (cases "ParseUint32 param")
    case None
    with assms show ?thesis
      by (simp add: GetContact_def)
  next
    case (Some i)
    obtain r1 db1 where 1: "repo_FindByID i db = (r1, db1)"
      by (cases "repo_FindByID i db")
    then show ?thesis
      using repo_find_ok(1) [OF 1] assms
      by (simp add: GetContact_def Some split: sum.splits)
  qed
  obtain r db1 where "repo_List db = (r, db1)"
    by (cases "repo_List db")
  then show "db_ok (snd (ListContacts db))"
    using repo_find_ok(3) [of db r db1] assms
    by (simp add: ListContacts_def split: sum.splits)
qed

lemma ImportContacts_ok:
  assumes "db_ok db"
  shows "db_ok (snd (ImportContacts upload db))"
proof (cases upload)
  case NoFile
  with assms show ?thesis
    by (simp add: ImportContacts_def)
next
  case (FormFile filename outcome)
  show ?thesis
  proof (cases outcome)
    case (Rows rows)
    obtain r db1 where 1: "repo_ImportContacts (import_rows rows []) db = (r, db1)"
      by (cases "repo_ImportContacts (import_rows rows []) db")
    have "db_ok db1"
      using repo_ImportContacts_ok [OF 1 import_rows_ok assms] .
    with assms show ?thesis
      by (simp add: ImportContacts_def FormFile Rows 1 Let_def split: option.splits)
  qed (use assms in \<open>simp_all add: ImportContacts_def FormFile\<close>)
qed

text \<open>
  C10, amended. \<open>db_ok\<close> says of every stored contact that its first and last name are
  not blank after trimming, that its email matches the pattern and that its primary phone
  is ten to fifteen digits and nothing else, and of every stored additional phone that its
  number is digits and nothing else. Every handler keeps it, whatever the request and
  whichever calls of the database fail: what create, update and import store satisfies it.
\<close>

theorem handlers_keep_stored_contacts_valid:
  assumes "db_ok db"
  shows "db_ok (snd (CreateContact bound db)) \<and>
         db_ok (snd (UpdateContact param bound db)) \<and>
         db_ok (snd (ImportContacts upload db)) \<and>
         db_ok (snd (DeleteContact param db)) \<and>
         db_ok (snd (GetContact param db)) \<and>
         db_ok (snd (ListContacts db))"
  using assms
  by (simp add: CreateContact_ok UpdateContact_ok ImportContacts_ok DeleteContact_ok
      read_handlers_ok)


text \<open>
  C10, as it is stated, fails: \<^verbatim>\<open>Validate\<close> checks the length of the primary phone only,
  so an additional phone of three digits is stored; it is stored twice, once with the
  contact and once by the insert of the repository.
\<close>

theorem short_additional_phone_counterexample:
  "status (fst (CreateContact
             (Inr (bob_request\<lparr>ReqAdditionalPhones :=
                     [\<lparr>PhoneID = 0, ContactID = 0, Number = ''12-3'', Type = ''home''\<rparr>]\<rparr>))
             empty_db)) = 201 \<and>
   map Number (phones (snd (CreateContact
             (Inr (bob_request\<lparr>ReqAdditionalPhones :=
                     [\<lparr>PhoneID = 0, ContactID = 0, Number = ''12-3'', Type = ''home''\<rparr>]\<rparr>))
             empty_db))) = [''123'', ''123'']"
  by code_simp

theorem handlers_keep_stored_contacts_valid_witness:
  "db_ok ann_db \<and>
   length (contacts (snd (CreateContact (Inr bob_request) ann_db))) = 2 \<and>
   db_ok (snd (CreateContact (Inr bob_request) ann_db)) \<and>
   db_ok (snd (UpdateContact ''1'' (Inr ann_request) ann_db)) \<and>
   db_ok (snd (ImportContacts (FormFile ''contacts.csv'' (Rows [bob_row])) ann_db))"
proof -
  have a: "db_ok ann_db"
    by code_simp
  have l: "length (contacts (snd (CreateContact (Inr bob_request) ann_db))) = 2"
    by code_simp
  from a l show ?thesis
    using handlers_keep_stored_contacts_valid
            [OF a, of "Inr bob_request" "''1''" "FormFile ''contacts.csv'' (Rows [bob_row])"]
          handlers_keep_stored_contacts_valid [OF a, of "Inr ann_request" "''1''"]
    by simp
qed

end
